theory Spec2Isabelle
  imports Complex_Main "HOL-Library.AList"
begin

section \<open>Sensor collector: data model\<close>

text \<open>
  The collector (\<^verbatim>\<open>sensor_collector.py\<close>) reads one response line from the
  microcontroller, parses it, and republishes temperature and humidity on the message
  bus. Python strings are lists of characters; the characters of \<^typ>\<open>char\<close> are the
  code points U+0000 to U+00FF.

  Python exceptions are values of \<open>exn\<close>. \<^verbatim>\<open>except Exception\<close> catches every
  exception class derived from \<^verbatim>\<open>Exception\<close>; \<^verbatim>\<open>KeyboardInterrupt\<close> derives from
  \<^verbatim>\<open>BaseException\<close> only and passes through such a handler.
\<close>

datatype exn = ValueError | KeyError | KeyboardInterrupt

fun is_Exception :: "exn \<Rightarrow> bool" where
  "is_Exception ValueError = True"
| "is_Exception KeyError = True"
| "is_Exception KeyboardInterrupt = False"

text \<open>
  The values the program stores in dictionaries: floats (of a type \<open>'f\<close> left open, the
  result type of the builtin \<^verbatim>\<open>float\<close>), integers and strings. A dictionary is an
  association list in insertion order; \<^const>\<open>AList.update\<close> overwrites the value of a
  key already present and appends a new key, as item assignment on a \<^verbatim>\<open>dict\<close> does.
\<close>

datatype 'f pyval = PyFloat 'f | PyInt int | PyStr string

type_synonym 'f dict = "(string \<times> 'f pyval) list"

section \<open>String operations\<close>

text \<open>
  \<^verbatim>\<open>str.strip()\<close> and \<^verbatim>\<open>str.split()\<close> without arguments work on whitespace as
  \<^verbatim>\<open>str.isspace\<close> defines it. Below U+0100 these are the code points 9 to 13, 28 to 32,
  133 and 160.
\<close>

definition isspace :: "char \<Rightarrow> bool" where
  "isspace c = (of_char c \<in> set [9, 10, 11, 12, 13, 28, 29, 30, 31, 32, 133, 160 :: nat])"

definition str_strip :: "string \<Rightarrow> string" where
  "str_strip s = rev (dropWhile isspace (rev (dropWhile isspace s)))"

text \<open>
  \<open>split_from cur s\<close> scans \<open>s\<close> from the left with \<open>cur\<close> the token collected so far:
  a whitespace character ends the current token if there is one, any other character
  extends it. The tokens are the maximal runs of non-whitespace characters.
\<close>

fun split_from :: "string \<Rightarrow> string \<Rightarrow> string list" where
  "split_from cur [] = (if cur = [] then [] else [cur])"
| "split_from cur (c # cs) =
     (if isspace c then (if cur = [] then split_from [] cs else cur # split_from [] cs)
      else split_from (cur @ [c]) cs)"

definition str_split :: "string \<Rightarrow> string list" where
  "str_split s = split_from [] s"

definition startswith :: "string \<Rightarrow> string \<Rightarrow> bool" where
  "startswith s p = (take (length p) s = p)"

section \<open>Line parser\<close>

text \<open>
  \<^verbatim>\<open>parse_sensor_data\<close> calls the builtins \<^verbatim>\<open>float\<close> and \<^verbatim>\<open>int\<close> on the value part
  of a token. They are parameters \<open>pyfloat\<close> and \<open>pyint\<close> of the model: \<open>None\<close> stands
  for the \<^verbatim>\<open>ValueError\<close> the builtin raises on a string it cannot decode.

  \<open>parse_part\<close> is the body of the \<^verbatim>\<open>for\<close> loop, \<open>parse_parts\<close> the loop over the
  tokens, \<open>parse_try\<close> the \<^verbatim>\<open>try\<close> block (\<open>Inr None\<close> when control falls out of the
  block without returning), and \<open>parse_sensor_data\<close> the whole method with its handler
  and the final \<^verbatim>\<open>return None\<close>. Logging is not modelled.
\<close>

definition parse_part ::
  "(string \<Rightarrow> 'f option) \<Rightarrow> (string \<Rightarrow> int option) \<Rightarrow> string \<Rightarrow> 'f dict \<Rightarrow> exn + 'f dict" where
  "parse_part pyfloat pyint part sensor_data =
     (if startswith part ''TEMP:'' then
        (case pyfloat (drop 5 part) of
           None \<Rightarrow> Inl ValueError
         | Some v \<Rightarrow> Inr (AList.update ''temperature'' (PyFloat v) sensor_data))
      else if startswith part ''HUM:'' then
        (case pyfloat (drop 4 part) of
           None \<Rightarrow> Inl ValueError
         | Some v \<Rightarrow> Inr (AList.update ''humidity'' (PyFloat v) sensor_data))
      else if startswith part ''STATUS:'' then
        (case pyint (drop 7 part) of
           None \<Rightarrow> Inl ValueError
         | Some n \<Rightarrow> Inr (AList.update ''status'' (PyInt n) sensor_data))
      else Inr sensor_data)"

fun parse_parts ::
  "(string \<Rightarrow> 'f option) \<Rightarrow> (string \<Rightarrow> int option) \<Rightarrow> string list \<Rightarrow> 'f dict \<Rightarrow> exn + 'f dict" where
  "parse_parts pyfloat pyint [] sensor_data = Inr sensor_data"
| "parse_parts pyfloat pyint (part # parts) sensor_data =
     (case parse_part pyfloat pyint part sensor_data of
        Inl e \<Rightarrow> Inl e
      | Inr sensor_data' \<Rightarrow> parse_parts pyfloat pyint parts sensor_data')"

definition parse_try ::
  "(string \<Rightarrow> 'f option) \<Rightarrow> (string \<Rightarrow> int option) \<Rightarrow> string \<Rightarrow> exn + 'f dict option" where
  "parse_try pyfloat pyint data_string =
     (case parse_parts pyfloat pyint (str_split (str_strip data_string)) [] of
        Inl e \<Rightarrow> Inl e
      | Inr sensor_data \<Rightarrow>
          if map_of sensor_data ''temperature'' \<noteq> None \<and> map_of sensor_data ''humidity'' \<noteq> None
          then Inr (Some sensor_data) else Inr None)"

definition parse_sensor_data ::
  "(string \<Rightarrow> 'f option) \<Rightarrow> (string \<Rightarrow> int option) \<Rightarrow> string \<Rightarrow> exn + 'f dict option" where
  "parse_sensor_data pyfloat pyint data_string =
     (case parse_try pyfloat pyint data_string of
        Inl e \<Rightarrow> if is_Exception e then Inr None else Inl e
      | Inr r \<Rightarrow> Inr r)"

text \<open>
  The tokens the parser decodes, in the words of the specification: a token is recognized
  when it begins with one of the three key prefixes, and undecodable when it is recognized
  and the builtin rejects its value part.
\<close>

definition recognized :: "string \<Rightarrow> bool" where
  "recognized part =
     (startswith part ''TEMP:'' \<or> startswith part ''HUM:'' \<or> startswith part ''STATUS:'')"

definition undecodable ::
  "(string \<Rightarrow> 'f option) \<Rightarrow> (string \<Rightarrow> int option) \<Rightarrow> string \<Rightarrow> bool" where
  "undecodable pyfloat pyint part =
     ((startswith part ''TEMP:'' \<and> pyfloat (drop 5 part) = None) \<or>
      (startswith part ''HUM:'' \<and> pyfloat (drop 4 part) = None) \<or>
      (startswith part ''STATUS:'' \<and> pyint (drop 7 part) = None))"

subsection \<open>Decoders for plain decimal literals\<close>

text \<open>
  \<open>decimal_float\<close> and \<open>decimal_int\<close> decode an optional sign followed by decimal digits
  (with one optional decimal point for floats) and reject everything else. The builtins
  \<^verbatim>\<open>float\<close> and \<^verbatim>\<open>int\<close> agree with them on such literals, \<^verbatim>\<open>float\<close> up to rounding
  to the nearest binary64 value, and accept further forms (exponents, digit grouping,
  \<^verbatim>\<open>inf\<close>, \<^verbatim>\<open>nan\<close>). The theorems below hold for every pair of decoders; these two
  serve to run the parser on concrete lines.
\<close>

definition digit_value :: "char \<Rightarrow> nat option" where
  "digit_value c =
     (let n = (of_char c :: nat) in if 48 \<le> n \<and> n \<le> 57 then Some (n - 48) else None)"

fun digits_value :: "nat \<Rightarrow> string \<Rightarrow> nat option" where
  "digits_value acc [] = Some acc"
| "digits_value acc (c # cs) =
     (case digit_value c of None \<Rightarrow> None | Some d \<Rightarrow> digits_value (10 * acc + d) cs)"

definition decimal_nat :: "string \<Rightarrow> nat option" where
  "decimal_nat s = (if s = [] then None else digits_value 0 s)"

definition unsigned_float :: "string \<Rightarrow> real option" where
  "unsigned_float s =
     (let whole = takeWhile (\<lambda>c. c \<noteq> CHR ''.'') s;
          frac = drop 1 (dropWhile (\<lambda>c. c \<noteq> CHR ''.'') s)
      in if whole @ frac = [] then None
         else (case digits_value 0 (whole @ frac) of
                 None \<Rightarrow> None
               | Some m \<Rightarrow> Some (real m / 10 ^ length frac)))"

definition decimal_float :: "string \<Rightarrow> real option" where
  "decimal_float s =
     (case s of
        c # cs \<Rightarrow>
          if c = CHR ''-'' then map_option uminus (unsigned_float cs)
          else if c = CHR ''+'' then unsigned_float cs
          else unsigned_float s
      | [] \<Rightarrow> None)"

definition decimal_int :: "string \<Rightarrow> int option" where
  "decimal_int s =
     (case s of
        c # cs \<Rightarrow>
          if c = CHR ''-'' then map_option (\<lambda>n. - int n) (decimal_nat cs)
          else if c = CHR ''+'' then map_option int (decimal_nat cs)
          else map_option int (decimal_nat s)
      | [] \<Rightarrow> None)"

section \<open>Collector state and outside world\<close>

text \<open>
  The module's configuration constants.
\<close>

definition UART_PORT :: string where "UART_PORT = ''/dev/ttyUSB0''"
definition BAUD_RATE :: nat where "BAUD_RATE = 9600"
definition MQTT_BROKER :: string where "MQTT_BROKER = ''localhost''"
definition MQTT_PORT :: nat where "MQTT_PORT = 1883"
definition MQTT_TOPIC_TEMP :: string where "MQTT_TOPIC_TEMP = ''home/room1/temperature''"
definition MQTT_TOPIC_HUM :: string where "MQTT_TOPIC_HUM = ''home/room1/humidity''"
definition MQTT_TOPIC_STATUS :: string where "MQTT_TOPIC_STATUS = ''home/room1/status''"

text \<open>
  A published payload is either the JSON text of a dictionary, \<^verbatim>\<open>json.dumps(d)\<close>,
  kept as the dictionary it serialises, or a plain string.

  The calls the collector makes on the serial port, on the bus client and on the clock
  are recorded, in order, in a trace. A call is recorded when it is made, whether or not
  the library then raises; a sleep is recorded when it has run to its end.
\<close>

datatype 'f payload = JsonDumps "'f dict" | Text string

datatype 'f action =
    SerialOpen string nat
  | SerialWrite string
  | SerialClose
  | MqttConnect string nat nat
  | MqttLoopStart
  | MqttPublish string "'f payload"
  | MqttLoopStop
  | MqttDisconnect
  | Sleep nat

record serial =
  is_open :: bool

record 'f collector =
  serial_conn :: "serial option"
  running :: bool
  trace :: "'f action list"

text \<open>
  \<^verbatim>\<open>__init__\<close>: no serial connection yet, the run flag set. The bus client object
  exists from here on and is always truthy.
\<close>

definition init_collector :: "'f collector" where
  "init_collector = \<lparr>serial_conn = None, running = True, trace = []\<rparr>"

definition emit :: "'f action \<Rightarrow> 'f collector \<Rightarrow> 'f collector" where
  "emit a c = c\<lparr>trace := trace c @ [a]\<rparr>"

text \<open>
  What the outside world does to one run. Before the loop: whether the serial port can be
  opened (otherwise \<^verbatim>\<open>serial.Serial\<close> raises \<^verbatim>\<open>SerialException\<close>), whether the connect
  request to the broker is dispatched (otherwise \<^verbatim>\<open>connect\<close> raises), the result codes
  with which the client's network thread calls \<^verbatim>\<open>on_mqtt_connect\<close> during the two-second
  wait, and whether Ctrl+C arrives during that wait. For each cycle of the poll loop: what
  the serial port holds, what the clock shows, the result codes of the connection
  callbacks of that cycle, whether the run flag is cleared from outside, and whether and
  where Ctrl+C arrives. After the loop: whether a further Ctrl+C arrives inside
  \<^verbatim>\<open>stop\<close>, and after how many of its calls.

  The callbacks run on the network thread, concurrently with the loop; the model runs
  those of a cycle before the first statement of the cycle. Nothing in the module but
  \<^verbatim>\<open>stop\<close> writes the run flag; \<open>flag_cleared\<close> stands for a write from outside, the
  external stop signal of the specification. The flag is read at the loop test only, so
  the point of the cycle at which it is written does not matter.

  \<open>sigint = Some st\<close> raises \<^verbatim>\<open>KeyboardInterrupt\<close> when the loop body reaches the
  statement \<open>st\<close>, before that statement takes effect; for \<open>Publish\<close> this is the second
  publish call inside \<^verbatim>\<open>publish_data\<close>, and in a cycle that does not get there, the
  wait that follows. A sleep cut short by Ctrl+C is not recorded. Ctrl+C during the two
  setup calls is not modelled.
\<close>

datatype rx = NoData | Line string | ReadError

datatype stage = Request | Settle | Read | Publish | Wait

record cycle_env =
  rx :: rx
  clock :: string
  connacks :: "nat list"
  flag_cleared :: bool
  sigint :: "stage option"

record env =
  port_ok :: bool
  broker_ok :: bool
  early_connacks :: "nat list"
  early_sigint :: bool
  cycles :: "cycle_env list"
  late_sigint :: "nat option"

section \<open>Setup\<close>

text \<open>
  \<^verbatim>\<open>setup_uart\<close>: on success the connection object is stored and the method returns
  \<open>True\<close>; on \<^verbatim>\<open>SerialException\<close> nothing is stored and it returns \<open>False\<close>.
  \<^verbatim>\<open>setup_mqtt\<close>: when \<^verbatim>\<open>connect\<close> raises, \<^verbatim>\<open>loop_start\<close> is not reached.
\<close>

definition setup_uart :: "bool \<Rightarrow> 'f collector \<Rightarrow> bool \<times> 'f collector" where
  "setup_uart ok c =
     (let c1 = emit (SerialOpen UART_PORT BAUD_RATE) c
      in if ok then (True, c1\<lparr>serial_conn := Some \<lparr>is_open = True\<rparr>\<rparr>) else (False, c1))"

definition setup_mqtt :: "bool \<Rightarrow> 'f collector \<Rightarrow> bool \<times> 'f collector" where
  "setup_mqtt ok c =
     (let c1 = emit (MqttConnect MQTT_BROKER MQTT_PORT 60) c
      in if ok then (True, emit MqttLoopStart c1) else (False, c1))"

text \<open>
  \<^verbatim>\<open>on_mqtt_connect\<close>, the callback registered in \<^verbatim>\<open>setup_mqtt\<close>: on result code 0 it
  publishes \<^verbatim>\<open>"online"\<close> to the status topic. \<^verbatim>\<open>on_mqtt_disconnect\<close> only logs.
\<close>

definition on_mqtt_connect :: "nat \<Rightarrow> 'f collector \<Rightarrow> 'f collector" where
  "on_mqtt_connect rc c =
     (if rc = 0 then emit (MqttPublish MQTT_TOPIC_STATUS (Text ''online'')) c else c)"

section \<open>Message publisher\<close>

text \<open>
  \<open>publish_try\<close> is the \<^verbatim>\<open>try\<close> block of \<^verbatim>\<open>publish_data\<close>: the timestamp is read from
  the clock once, before both payloads are built; a missing key raises \<^verbatim>\<open>KeyError\<close>
  at the lookup, after the publishes already made. The bus client's \<^verbatim>\<open>publish\<close> queues
  the message and returns a result code, which the method ignores. \<open>publish_data\<close> adds
  the handler.
\<close>

definition degC :: string where
  "degC = [CHR 0xB0, CHR ''C'']"

definition publish_try :: "string \<Rightarrow> 'f dict \<Rightarrow> 'f collector \<Rightarrow> exn option \<times> 'f collector" where
  "publish_try timestamp sensor_data c =
     (case map_of sensor_data ''temperature'' of
        None \<Rightarrow> (Some KeyError, c)
      | Some t \<Rightarrow>
          let temp_payload =
                JsonDumps [(''value'', t), (''timestamp'', PyStr timestamp), (''unit'', PyStr degC)];
              c1 = emit (MqttPublish MQTT_TOPIC_TEMP temp_payload) c
          in (case map_of sensor_data ''humidity'' of
                None \<Rightarrow> (Some KeyError, c1)
              | Some h \<Rightarrow>
                  let hum_payload =
                        JsonDumps [(''value'', h), (''timestamp'', PyStr timestamp), (''unit'', PyStr ''%'')]
                  in (None, emit (MqttPublish MQTT_TOPIC_HUM hum_payload) c1)))"

definition publish_data :: "string \<Rightarrow> 'f dict \<Rightarrow> 'f collector \<Rightarrow> exn option \<times> 'f collector" where
  "publish_data timestamp sensor_data c =
     (case publish_try timestamp sensor_data c of
        (Some e, c') \<Rightarrow> if is_Exception e then (None, c') else (Some e, c')
      | (None, c') \<Rightarrow> (None, c'))"

text \<open>
  \<^verbatim>\<open>publish_data\<close> with Ctrl+C arriving between its two publish calls: the first
  payload is built and published, \<^verbatim>\<open>KeyboardInterrupt\<close> is raised in place of the rest
  of the block, and the handler, which catches \<^verbatim>\<open>Exception\<close> only, lets it pass. When
  the temperature key is missing, the \<^verbatim>\<open>KeyError\<close> comes first and is caught.
\<close>

definition publish_try_sigint ::
  "string \<Rightarrow> 'f dict \<Rightarrow> 'f collector \<Rightarrow> exn option \<times> 'f collector" where
  "publish_try_sigint timestamp sensor_data c =
     (case map_of sensor_data ''temperature'' of
        None \<Rightarrow> (Some KeyError, c)
      | Some t \<Rightarrow>
          let temp_payload =
                JsonDumps [(''value'', t), (''timestamp'', PyStr timestamp), (''unit'', PyStr degC)]
          in (Some KeyboardInterrupt, emit (MqttPublish MQTT_TOPIC_TEMP temp_payload) c))"

definition publish_data_sigint ::
  "string \<Rightarrow> 'f dict \<Rightarrow> 'f collector \<Rightarrow> exn option \<times> 'f collector" where
  "publish_data_sigint timestamp sensor_data c =
     (case publish_try_sigint timestamp sensor_data c of
        (Some e, c') \<Rightarrow> if is_Exception e then (None, c') else (Some e, c')
      | (None, c') \<Rightarrow> (None, c'))"

section \<open>Poll loop\<close>

text \<open>
  \<^verbatim>\<open>request_sensor_reading\<close> writes the command byte to the serial connection. Without
  a connection object the attribute access raises, with one the write may raise; both
  are caught and logged, so the method returns normally either way.
  \<^verbatim>\<open>read_sensor_data\<close> returns the decoded line when the port is open and has data
  waiting, and \<open>None\<close> when it has none or when the access, the read or the decoding
  raises.
\<close>

definition request_sensor_reading :: "'f collector \<Rightarrow> 'f collector" where
  "request_sensor_reading c =
     (case serial_conn c of
        None \<Rightarrow> c
      | Some s \<Rightarrow> emit (SerialWrite ''R'') c)"

definition read_sensor_data :: "rx \<Rightarrow> 'f collector \<Rightarrow> string option" where
  "read_sensor_data r c =
     (case serial_conn c of
        None \<Rightarrow> None
      | Some s \<Rightarrow>
          if is_open s then (case r of NoData \<Rightarrow> None | Line d \<Rightarrow> Some d | ReadError \<Rightarrow> None)
          else None)"

text \<open>
  \<open>process\<close> is the \<^verbatim>\<open>if data:\<close> block of the loop body: the empty string and the empty
  dictionary are falsy. \<open>interrupted\<close> tells whether Ctrl+C arrives inside
  \<^verbatim>\<open>publish_data\<close>.
\<close>

definition process ::
  "(string \<Rightarrow> 'f option) \<Rightarrow> (string \<Rightarrow> int option) \<Rightarrow> bool \<Rightarrow> string \<Rightarrow> string option \<Rightarrow>
   'f collector \<Rightarrow> exn option \<times> 'f collector" where
  "process pyfloat pyint interrupted timestamp data c =
     (case data of
        None \<Rightarrow> (None, c)
      | Some s \<Rightarrow>
          if s = [] then (None, c)
          else (case parse_sensor_data pyfloat pyint s of
                  Inl e \<Rightarrow> (Some e, c)
                | Inr None \<Rightarrow> (None, c)
                | Inr (Some sensor_data) \<Rightarrow>
                    if sensor_data = [] then (None, c)
                    else if interrupted then publish_data_sigint timestamp sensor_data c
                    else publish_data timestamp sensor_data c))"

text \<open>
  One pass through the body of the loop, after the events of the network thread and of
  the outside that fall into the cycle.
\<close>

definition cycle ::
  "(string \<Rightarrow> 'f option) \<Rightarrow> (string \<Rightarrow> int option) \<Rightarrow> cycle_env \<Rightarrow>
   'f collector \<Rightarrow> exn option \<times> 'f collector" where
  "cycle pyfloat pyint e c =
     (let c0 = fold on_mqtt_connect (connacks e)
                 (if flag_cleared e then c\<lparr>running := False\<rparr> else c)
      in if sigint e = Some Request then (Some KeyboardInterrupt, c0)
      else let c1 = request_sensor_reading c0 in
        if sigint e = Some Settle then (Some KeyboardInterrupt, c1)
        else let c2 = emit (Sleep 1) c1 in
          if sigint e = Some Read then (Some KeyboardInterrupt, c2)
          else (case process pyfloat pyint (sigint e = Some Publish) (clock e)
                       (read_sensor_data (rx e) c2) c2 of
                  (Some x, c3) \<Rightarrow> (Some x, c3)
                | (None, c3) \<Rightarrow>
                    if sigint e = Some Publish \<or> sigint e = Some Wait
                    then (Some KeyboardInterrupt, c3)
                    else (None, emit (Sleep 4) c3)))"

text \<open>
  The \<^verbatim>\<open>while self.running\<close> loop, run against the cycles the environment describes.
  The result is \<open>None\<close> when the loop is still running after the last described cycle;
  otherwise the exception that left the loop, if any, and the state at that point.
\<close>

fun poll_loop ::
  "(string \<Rightarrow> 'f option) \<Rightarrow> (string \<Rightarrow> int option) \<Rightarrow> cycle_env list \<Rightarrow>
   'f collector \<Rightarrow> (exn option \<times> 'f collector) option" where
  "poll_loop pyfloat pyint [] c = (if running c then None else Some (None, c))"
| "poll_loop pyfloat pyint (e # es) c =
     (if running c then
        (case cycle pyfloat pyint e c of
           (Some x, c') \<Rightarrow> Some (Some x, c')
         | (None, c') \<Rightarrow> poll_loop pyfloat pyint es c')
      else Some (None, c))"

text \<open>
  \<^verbatim>\<open>stop\<close>: clear the run flag, publish \<^verbatim>\<open>"offline"\<close>, stop the client's network loop,
  disconnect, and close the serial connection if there is one and it is open.
  \<open>stop_sigint k\<close> is \<^verbatim>\<open>stop\<close> cut short by a further Ctrl+C after \<open>k\<close> of its calls.
\<close>

definition stop :: "'f collector \<Rightarrow> 'f collector" where
  "stop c =
     (let c1 = c\<lparr>running := False\<rparr>;
          c2 = emit (MqttPublish MQTT_TOPIC_STATUS (Text ''offline'')) c1;
          c3 = emit MqttLoopStop c2;
          c4 = emit MqttDisconnect c3
      in (case serial_conn c4 of
            None \<Rightarrow> c4
          | Some s \<Rightarrow>
              if is_open s then (emit SerialClose c4)\<lparr>serial_conn := Some (s\<lparr>is_open := False\<rparr>)\<rparr>
              else c4))"

definition stop_sigint :: "nat \<Rightarrow> 'f collector \<Rightarrow> 'f collector" where
  "stop_sigint k c =
     (let c1 = c\<lparr>running := False\<rparr> in
      if k = 0 then c1
      else let c2 = emit (MqttPublish MQTT_TOPIC_STATUS (Text ''offline'')) c1 in
        if k = 1 then c2
        else let c3 = emit MqttLoopStop c2 in
          if k = 2 then c3
          else let c4 = emit MqttDisconnect c3 in
            if k = 3 then c4 else stop c)"

text \<open>
  \<^verbatim>\<open>run\<close>: both setup steps, the two-second wait for the broker, the poll loop, and
  the \<^verbatim>\<open>KeyboardInterrupt\<close> handler, which calls \<^verbatim>\<open>stop\<close>. The wait lies outside the
  \<^verbatim>\<open>try\<close>, so Ctrl+C there leaves \<^verbatim>\<open>run\<close> as an exception, as does a further Ctrl+C
  inside the handler and any other exception of the loop. When the loop ends because
  the flag is found cleared, \<^verbatim>\<open>run\<close> returns.
\<close>

definition run ::
  "(string \<Rightarrow> 'f option) \<Rightarrow> (string \<Rightarrow> int option) \<Rightarrow> env \<Rightarrow>
   'f collector \<Rightarrow> (exn option \<times> 'f collector) option" where
  "run pyfloat pyint world c =
     (case setup_uart (port_ok world) c of
        (False, c1) \<Rightarrow> Some (None, c1)
      | (True, c1) \<Rightarrow>
          (case setup_mqtt (broker_ok world) c1 of
             (False, c2) \<Rightarrow> Some (None, c2)
           | (True, c2) \<Rightarrow>
               let c3 = fold on_mqtt_connect (early_connacks world) c2 in
               if early_sigint world then Some (Some KeyboardInterrupt, c3)
               else
                 (case poll_loop pyfloat pyint (cycles world) (emit (Sleep 2) c3) of
                    None \<Rightarrow> None
                  | Some (None, c4) \<Rightarrow> Some (None, c4)
                  | Some (Some x, c4) \<Rightarrow>
                      if x = KeyboardInterrupt then
                        (case late_sigint world of
                           None \<Rightarrow> Some (None, stop c4)
                         | Some k \<Rightarrow> Some (Some KeyboardInterrupt, stop_sigint k c4))
                      else Some (Some x, c4))))"

text \<open>
  The calls that belong to the time between setup and teardown: those of a poll cycle
  and the \<^verbatim>\<open>"online"\<close> publish of the connection callback. \<open>elapsed\<close> adds up the sleeps
  of a trace, in seconds.
\<close>

fun loop_action :: "'f action \<Rightarrow> bool" where
  "loop_action (SerialWrite s) = True"
| "loop_action (Sleep n) = True"
| "loop_action (MqttPublish topic p) =
     (topic = MQTT_TOPIC_TEMP \<or> topic = MQTT_TOPIC_HUM \<or>
      (topic = MQTT_TOPIC_STATUS \<and> p = Text ''online''))"
| "loop_action a = False"

fun seconds :: "'f action \<Rightarrow> nat" where
  "seconds (Sleep n) = n"
| "seconds a = 0"

definition elapsed :: "'f action list \<Rightarrow> nat" where
  "elapsed acts = sum_list (map seconds acts)"


section \<open>Properties of the line parser\<close>

lemma temp_not_hum: "startswith p ''TEMP:'' \<Longrightarrow> \<not> startswith p ''HUM:''"
  by (cases p) (auto simp: startswith_def)

lemma temp_not_status: "startswith p ''TEMP:'' \<Longrightarrow> \<not> startswith p ''STATUS:''"
  by (cases p) (auto simp: startswith_def)

lemma hum_not_status: "startswith p ''HUM:'' \<Longrightarrow> \<not> startswith p ''STATUS:''"
  by (cases p) (auto simp: startswith_def)

lemma parse_part_raises_iff:
  "(\<exists>e. parse_part pf pn p d = Inl e) \<longleftrightarrow> undecodable pf pn p"
  by (auto simp: parse_part_def undecodable_def temp_not_hum temp_not_status hum_not_status
      split: option.splits)

lemma parse_part_Inl: "parse_part pf pn p d = Inl e \<Longrightarrow> e = ValueError"
  by (auto simp: parse_part_def split: option.splits if_splits)

lemma parse_part_unrecognized: "\<not> recognized p \<Longrightarrow> parse_part pf pn p d = Inr d"
  by (simp add: parse_part_def recognized_def)

lemma parse_parts_Inl: "parse_parts pf pn ps d = Inl e \<Longrightarrow> e = ValueError"
  by (induction ps arbitrary: d) (auto split: sum.splits dest: parse_part_Inl)

lemma parse_parts_raises_iff:
  "(\<exists>e. parse_parts pf pn ps d = Inl e) \<longleftrightarrow> (\<exists>p\<in>set ps. undecodable pf pn p)"
proof (induction ps arbitrary: d)
  case Nil
  then show ?case by simp
next
  case (Cons p ps)
  show ?case
  proof (cases "parse_part pf pn p d")
    case (Inl e)
    then have "undecodable pf pn p" using parse_part_raises_iff by blast
    with Inl show ?thesis by simp
  next
    case (Inr d')
    then have "\<not> undecodable pf pn p" using parse_part_raises_iff [of pf pn p d] by simp
    with Inr Cons.IH [of d'] show ?thesis by simp
  qed
qed

lemma parse_parts_filter_recognized:
  "parse_parts pf pn (filter recognized ps) d = parse_parts pf pn ps d"
  by (induction ps arbitrary: d) (auto simp: parse_part_unrecognized split: sum.splits)

lemma parse_part_temperature:
  "parse_part pf pn p d = Inr d' \<Longrightarrow>
   map_of d' ''temperature'' =
     (if startswith p ''TEMP:'' then map_option PyFloat (pf (drop 5 p)) else map_of d ''temperature'')"
  by (auto simp: parse_part_def update_conv' split: option.splits if_splits)

lemma parse_part_humidity:
  "parse_part pf pn p d = Inr d' \<Longrightarrow>
   map_of d' ''humidity'' =
     (if startswith p ''HUM:'' then map_option PyFloat (pf (drop 4 p)) else map_of d ''humidity'')"
  by (auto simp: parse_part_def update_conv' temp_not_hum split: option.splits if_splits)

lemma parse_part_status:
  "parse_part pf pn p d = Inr d' \<Longrightarrow>
   map_of d' ''status'' =
     (if startswith p ''STATUS:'' then map_option PyInt (pn (drop 7 p)) else map_of d ''status'')"
  by (auto simp: parse_part_def update_conv' temp_not_status hum_not_status
      split: option.splits if_splits)

lemma parse_parts_temperature:
  "parse_parts pf pn ps d = Inr d' \<Longrightarrow>
   map_of d' ''temperature'' =
     (if filter (\<lambda>p. startswith p ''TEMP:'') ps = [] then map_of d ''temperature''
      else map_option PyFloat (pf (drop 5 (last (filter (\<lambda>p. startswith p ''TEMP:'') ps)))))"
proof (induction ps arbitrary: d)
  case Nil
  then show ?case by simp
next
  case (Cons p ps)
  from Cons.prems obtain d1 where p: "parse_part pf pn p d = Inr d1"
    and ps: "parse_parts pf pn ps d1 = Inr d'"
    by (auto split: sum.splits)
  show ?case
    using Cons.IH [OF ps] parse_part_temperature [OF p]
    by auto
qed

lemma parse_parts_humidity:
  "parse_parts pf pn ps d = Inr d' \<Longrightarrow>
   map_of d' ''humidity'' =
     (if filter (\<lambda>p. startswith p ''HUM:'') ps = [] then map_of d ''humidity''
      else map_option PyFloat (pf (drop 4 (last (filter (\<lambda>p. startswith p ''HUM:'') ps)))))"
proof (induction ps arbitrary: d)
  case Nil
  then show ?case by simp
next
  case (Cons p ps)
  from Cons.prems obtain d1 where p: "parse_part pf pn p d = Inr d1"
    and ps: "parse_parts pf pn ps d1 = Inr d'"
    by (auto split: sum.splits)
  show ?case
    using Cons.IH [OF ps] parse_part_humidity [OF p]
    by auto
qed

lemma parse_parts_status:
  "parse_parts pf pn ps d = Inr d' \<Longrightarrow>
   map_of d' ''status'' =
     (if filter (\<lambda>p. startswith p ''STATUS:'') ps = [] then map_of d ''status''
      else map_option PyInt (pn (drop 7 (last (filter (\<lambda>p. startswith p ''STATUS:'') ps)))))"
proof (induction ps arbitrary: d)
  case Nil
  then show ?case by simp
next
  case (Cons p ps)
  from Cons.prems obtain d1 where p: "parse_part pf pn p d = Inr d1"
    and ps: "parse_parts pf pn ps d1 = Inr d'"
    by (auto split: sum.splits)
  show ?case
    using Cons.IH [OF ps] parse_part_status [OF p]
    by auto
qed

text \<open>The method in one equation: the handler turns every exception of the loop into
  the final \<^verbatim>\<open>return None\<close>.\<close>

lemma parse_sensor_data_eq:
  "parse_sensor_data pf pn s =
     (case parse_parts pf pn (str_split (str_strip s)) [] of
        Inl e \<Rightarrow> Inr None
      | Inr d \<Rightarrow>
          if map_of d ''temperature'' \<noteq> None \<and> map_of d ''humidity'' \<noteq> None
          then Inr (Some d) else Inr None)"
  by (auto simp: parse_sensor_data_def parse_try_def split: sum.splits dest: parse_parts_Inl)

lemma parse_sensor_data_Some:
  "parse_sensor_data pf pn s = Inr (Some d) \<longleftrightarrow>
     parse_parts pf pn (str_split (str_strip s)) [] = Inr d \<and>
     map_of d ''temperature'' \<noteq> None \<and> map_of d ''humidity'' \<noteq> None"
  by (auto simp: parse_sensor_data_eq split: sum.splits)

lemma parse_sensor_data_not_Inl: "parse_sensor_data pf pn s \<noteq> Inl e"
  by (simp add: parse_sensor_data_eq split: sum.splits)

lemma str_strip_whitespace: "\<forall>c\<in>set s. isspace c \<Longrightarrow> str_strip s = []"
proof -
  assume "\<forall>c\<in>set s. isspace c"
  then have *: "dropWhile isspace s = []" by (induction s) auto
  show ?thesis unfolding str_strip_def * by simp
qed

lemmas run_parser =
  parse_sensor_data_def parse_try_def parse_part_def str_split_def str_strip_def
  isspace_def startswith_def

lemmas run_decoders =
  decimal_float_def unsigned_float_def decimal_int_def decimal_nat_def digit_value_def

lemma tokens_scenario_1:
  "str_split (str_strip ''TEMP:23.5 HUM:60.2 STATUS:1'') = [''TEMP:23.5'', ''HUM:60.2'', ''STATUS:1'']"
  by (simp add: str_split_def str_strip_def isspace_def)

text \<open>
  Claim C1. When every recognized token of a line decodes and the line has a token
  beginning with \<^verbatim>\<open>TEMP:\<close> and one beginning with \<^verbatim>\<open>HUM:\<close>, the parser returns a
  reading whose temperature and humidity are the decoded value parts of these tokens (of
  the last one, should a key occur more than once), wherever the tokens stand in the line
  and whatever unrecognized tokens stand between them. In particular the line
  \<^verbatim>\<open>TEMP:23.5 HUM:60.2 STATUS:1\<close> yields temperature \<^verbatim>\<open>float("23.5")\<close>, humidity
  \<^verbatim>\<open>float("60.2")\<close> and status \<^verbatim>\<open>int("1")\<close>.
\<close>

theorem parse_sensor_data_reading:
  "((\<forall>p\<in>set (str_split (str_strip s)). \<not> undecodable pf pn p) \<and>
    (\<exists>p\<in>set (str_split (str_strip s)). startswith p ''TEMP:'') \<and>
    (\<exists>p\<in>set (str_split (str_strip s)). startswith p ''HUM:'') \<longrightarrow>
    (\<exists>d t h. parse_sensor_data pf pn s = Inr (Some d) \<and>
       map_of d ''temperature'' = Some (PyFloat t) \<and>
       pf (drop 5 (last (filter (\<lambda>p. startswith p ''TEMP:'') (str_split (str_strip s))))) = Some t \<and>
       map_of d ''humidity'' = Some (PyFloat h) \<and>
       pf (drop 4 (last (filter (\<lambda>p. startswith p ''HUM:'') (str_split (str_strip s))))) = Some h)) \<and>
   (pf ''23.5'' = Some t1 \<and> pf ''60.2'' = Some h1 \<and> pn ''1'' = Some n1 \<longrightarrow>
    parse_sensor_data pf pn ''TEMP:23.5 HUM:60.2 STATUS:1'' =
      Inr (Some [(''temperature'', PyFloat t1), (''humidity'', PyFloat h1), (''status'', PyInt n1)]))"
proof (intro conjI impI)
  let ?ps = "str_split (str_strip s)"
  let ?T = "filter (\<lambda>p. startswith p ''TEMP:'') ?ps"
  let ?H = "filter (\<lambda>p. startswith p ''HUM:'') ?ps"
  assume a: "(\<forall>p\<in>set ?ps. \<not> undecodable pf pn p) \<and> (\<exists>p\<in>set ?ps. startswith p ''TEMP:'') \<and>
    (\<exists>p\<in>set ?ps. startswith p ''HUM:'')"
  from a have "\<not> (\<exists>e. parse_parts pf pn ?ps [] = Inl e)"
    by (simp add: parse_parts_raises_iff)
  then obtain d where d: "parse_parts pf pn ?ps [] = Inr d"
    by (cases "parse_parts pf pn ?ps []") auto
  from a have T: "?T \<noteq> []" and H: "?H \<noteq> []"
    by (auto simp: filter_empty_conv)
  have lastT: "last ?T \<in> set ?ps" "startswith (last ?T) ''TEMP:''"
    using last_in_set [OF T] by auto
  have lastH: "last ?H \<in> set ?ps" "startswith (last ?H) ''HUM:''"
    using last_in_set [OF H] by auto
  from a lastT obtain t where t: "pf (drop 5 (last ?T)) = Some t"
    by (auto simp: undecodable_def)
  from a lastH obtain h where h: "pf (drop 4 (last ?H)) = Some h"
    by (auto simp: undecodable_def)
  have dt: "map_of d ''temperature'' = Some (PyFloat t)"
    using parse_parts_temperature [OF d] T t by simp
  have dh: "map_of d ''humidity'' = Some (PyFloat h)"
    using parse_parts_humidity [OF d] H h by simp
  have "parse_sensor_data pf pn s = Inr (Some d)"
    using d dt dh by (simp add: parse_sensor_data_Some)
  with dt dh t h
  show "\<exists>d t h. parse_sensor_data pf pn s = Inr (Some d) \<and>
       map_of d ''temperature'' = Some (PyFloat t) \<and> pf (drop 5 (last ?T)) = Some t \<and>
       map_of d ''humidity'' = Some (PyFloat h) \<and> pf (drop 4 (last ?H)) = Some h"
    by blast
next
  assume "pf ''23.5'' = Some t1 \<and> pf ''60.2'' = Some h1 \<and> pn ''1'' = Some n1"
  then show "parse_sensor_data pf pn ''TEMP:23.5 HUM:60.2 STATUS:1'' =
      Inr (Some [(''temperature'', PyFloat t1), (''humidity'', PyFloat h1), (''status'', PyInt n1)])"
    by (simp add: parse_sensor_data_eq tokens_scenario_1 parse_part_def startswith_def)
qed

theorem parse_sensor_data_reading_witness:
  "parse_sensor_data decimal_float decimal_int ''STATUS:0 HUM:60.2 BATT:3 TEMP:23.5'' =
     Inr (Some [(''status'', PyInt 0), (''humidity'', PyFloat 60.2), (''temperature'', PyFloat 23.5)]) \<and>
   parse_sensor_data decimal_float decimal_int ''TEMP:23.5 HUM:60.2 STATUS:1'' =
     Inr (Some [(''temperature'', PyFloat 23.5), (''humidity'', PyFloat 60.2), (''status'', PyInt 1)])"
proof -
  let ?s = "''STATUS:0 HUM:60.2 BATT:3 TEMP:23.5''"
  have ps: "str_split (str_strip ?s) = [''STATUS:0'', ''HUM:60.2'', ''BATT:3'', ''TEMP:23.5'']"
    by (simp add: str_split_def str_strip_def isspace_def)
  have f: "decimal_float ''23.5'' = Some 23.5" "decimal_float ''60.2'' = Some 60.2"
    by (simp_all add: run_decoders)
  have n: "decimal_int ''1'' = Some 1" "decimal_int ''0'' = Some 0"
    by (simp_all add: run_decoders)
  have hyp: "(\<forall>p\<in>set (str_split (str_strip ?s)). \<not> undecodable decimal_float decimal_int p) \<and>
    (\<exists>p\<in>set (str_split (str_strip ?s)). startswith p ''TEMP:'') \<and>
    (\<exists>p\<in>set (str_split (str_strip ?s)). startswith p ''HUM:'')"
    unfolding ps by (simp add: undecodable_def startswith_def f n del: not_None_eq)
  from parse_sensor_data_reading [of ?s decimal_float decimal_int "23.5" "60.2" 1] hyp f n
  obtain d t h where d: "parse_sensor_data decimal_float decimal_int ?s = Inr (Some d)"
    and "map_of d ''temperature'' = Some (PyFloat t)" and "map_of d ''humidity'' = Some (PyFloat h)"
    and sc: "parse_sensor_data decimal_float decimal_int ''TEMP:23.5 HUM:60.2 STATUS:1'' =
     Inr (Some [(''temperature'', PyFloat 23.5), (''humidity'', PyFloat 60.2), (''status'', PyInt 1)])"
    by blast
  have "parse_sensor_data decimal_float decimal_int ?s =
     Inr (Some [(''status'', PyInt 0), (''humidity'', PyFloat 60.2), (''temperature'', PyFloat 23.5)])"
    by (simp add: parse_sensor_data_eq ps parse_part_def startswith_def f n)
  with sc show ?thesis by simp
qed

text \<open>
  Claim C2. A line with no token beginning with \<^verbatim>\<open>TEMP:\<close>, or with no token beginning
  with \<^verbatim>\<open>HUM:\<close>, is rejected: the parser returns \<open>None\<close>. In particular the line
  \<^verbatim>\<open>HUM:60.2\<close> is rejected, whatever the decoders do.
\<close>

theorem missing_key_rejected:
  "((\<forall>p\<in>set (str_split (str_strip s)). \<not> startswith p ''TEMP:'') \<or>
    (\<forall>p\<in>set (str_split (str_strip s)). \<not> startswith p ''HUM:'') \<longrightarrow>
    parse_sensor_data pf pn s = Inr None) \<and>
   parse_sensor_data pf pn ''HUM:60.2'' = Inr None"
proof -
  have gen: "parse_sensor_data pf pn x = Inr None"
    if "(\<forall>p\<in>set (str_split (str_strip x)). \<not> startswith p ''TEMP:'') \<or>
        (\<forall>p\<in>set (str_split (str_strip x)). \<not> startswith p ''HUM:'')" for x
  proof (cases "parse_parts pf pn (str_split (str_strip x)) []")
    case (Inl e)
    then show ?thesis by (simp add: parse_sensor_data_eq)
  next
    case (Inr d)
    from that have "filter (\<lambda>p. startswith p ''TEMP:'') (str_split (str_strip x)) = [] \<or>
        filter (\<lambda>p. startswith p ''HUM:'') (str_split (str_strip x)) = []"
      by (simp add: filter_empty_conv)
    then have "map_of d ''temperature'' = None \<or> map_of d ''humidity'' = None"
      using parse_parts_temperature [OF Inr] parse_parts_humidity [OF Inr] by auto
    with Inr show ?thesis by (auto simp: parse_sensor_data_eq)
  qed
  have "str_split (str_strip ''HUM:60.2'') = [''HUM:60.2'']"
    by (simp add: str_split_def str_strip_def isspace_def)
  then have "\<forall>p\<in>set (str_split (str_strip ''HUM:60.2'')). \<not> startswith p ''TEMP:''"
    by (simp add: startswith_def)
  then have "parse_sensor_data pf pn ''HUM:60.2'' = Inr None"
    using gen by blast
  with gen show ?thesis by blast
qed

theorem missing_key_rejected_witness:
  "parse_sensor_data decimal_float decimal_int ''TEMP:23.5 STATUS:1'' = Inr None \<and>
   parse_sensor_data decimal_float decimal_int ''HUM:60.2'' = Inr None"
proof -
  have "str_split (str_strip ''TEMP:23.5 STATUS:1'') = [''TEMP:23.5'', ''STATUS:1'']"
    by (simp add: str_split_def str_strip_def isspace_def)
  then have "\<forall>p\<in>set (str_split (str_strip ''TEMP:23.5 STATUS:1'')). \<not> startswith p ''HUM:''"
    by (simp add: startswith_def)
  then show ?thesis
    using missing_key_rejected [of "''TEMP:23.5 STATUS:1''" decimal_float decimal_int] by blast
qed

text \<open>
  Claim C3. A line with at least one recognized token whose value part the decoder rejects
  is rejected as a whole, whatever its other tokens are; no partial reading is returned.
  In particular the line \<^verbatim>\<open>TEMP:abc HUM:60.2\<close> is rejected, \<^verbatim>\<open>float("abc")\<close> being an
  error.
\<close>

theorem decode_failure_rejected:
  "((\<exists>p\<in>set (str_split (str_strip s)). undecodable pf pn p) \<longrightarrow>
    parse_sensor_data pf pn s = Inr None) \<and>
   (pf ''abc'' = None \<longrightarrow> parse_sensor_data pf pn ''TEMP:abc HUM:60.2'' = Inr None)"
proof -
  have gen: "parse_sensor_data pf pn x = Inr None"
    if "\<exists>p\<in>set (str_split (str_strip x)). undecodable pf pn p" for x
  proof -
    from that obtain e where "parse_parts pf pn (str_split (str_strip x)) [] = Inl e"
      using parse_parts_raises_iff [of pf pn "str_split (str_strip x)" "[]"] by blast
    then show ?thesis by (simp add: parse_sensor_data_eq)
  qed
  have ps: "str_split (str_strip ''TEMP:abc HUM:60.2'') = [''TEMP:abc'', ''HUM:60.2'']"
    by (simp add: str_split_def str_strip_def isspace_def)
  have "parse_sensor_data pf pn ''TEMP:abc HUM:60.2'' = Inr None" if "pf ''abc'' = None"
  proof -
    from that have "undecodable pf pn ''TEMP:abc''"
      by (simp add: undecodable_def startswith_def)
    then have "\<exists>p\<in>set (str_split (str_strip ''TEMP:abc HUM:60.2'')). undecodable pf pn p"
      unfolding ps by simp
    then show ?thesis by (rule gen)
  qed
  with gen show ?thesis by blast
qed

theorem decode_failure_rejected_witness:
  "parse_sensor_data decimal_float decimal_int ''HUM:60.2 TEMP:23.5 STATUS:x1'' = Inr None \<and>
   parse_sensor_data decimal_float decimal_int ''TEMP:abc HUM:60.2'' = Inr None"
proof -
  let ?s = "''HUM:60.2 TEMP:23.5 STATUS:x1''"
  have ps: "str_split (str_strip ?s) = [''HUM:60.2'', ''TEMP:23.5'', ''STATUS:x1'']"
    by (simp add: str_split_def str_strip_def isspace_def)
  have "decimal_int ''x1'' = None"
    by (simp add: run_decoders)
  then have "undecodable decimal_float decimal_int ''STATUS:x1''"
    by (simp add: undecodable_def startswith_def)
  then have h1: "\<exists>p\<in>set (str_split (str_strip ?s)). undecodable decimal_float decimal_int p"
    unfolding ps by simp
  have h2: "decimal_float ''abc'' = None"
    by (simp add: run_decoders)
  from decode_failure_rejected [of ?s decimal_float decimal_int] h1 h2
  show ?thesis by blast
qed

text \<open>
  Claim C7. When the parser returns a reading, the reading carries for each of the three
  keys the decoded value of the last token with that key's prefix, in the left-to-right
  order of the tokens; the status is absent exactly when no token has the status prefix.
\<close>

theorem last_occurrence_wins:
  assumes "parse_sensor_data pf pn s = Inr (Some d)"
  shows "(\<exists>t. pf (drop 5 (last (filter (\<lambda>p. startswith p ''TEMP:'') (str_split (str_strip s))))) = Some t \<and>
            map_of d ''temperature'' = Some (PyFloat t)) \<and>
         (\<exists>h. pf (drop 4 (last (filter (\<lambda>p. startswith p ''HUM:'') (str_split (str_strip s))))) = Some h \<and>
            map_of d ''humidity'' = Some (PyFloat h)) \<and>
         (if filter (\<lambda>p. startswith p ''STATUS:'') (str_split (str_strip s)) = []
          then map_of d ''status'' = None
          else (\<exists>n. pn (drop 7 (last (filter (\<lambda>p. startswith p ''STATUS:'') (str_split (str_strip s))))) = Some n \<and>
            map_of d ''status'' = Some (PyInt n)))"
proof -
  let ?ps = "str_split (str_strip s)"
  let ?T = "filter (\<lambda>p. startswith p ''TEMP:'') ?ps"
  let ?H = "filter (\<lambda>p. startswith p ''HUM:'') ?ps"
  let ?S = "filter (\<lambda>p. startswith p ''STATUS:'') ?ps"
  from assms have d: "parse_parts pf pn ?ps [] = Inr d"
    and dt: "map_of d ''temperature'' \<noteq> None" and dh: "map_of d ''humidity'' \<noteq> None"
    by (simp_all add: parse_sensor_data_Some)
  from d have ok: "\<forall>p\<in>set ?ps. \<not> undecodable pf pn p"
    using parse_parts_raises_iff [of pf pn ?ps "[]"] by auto
  have T: "?T \<noteq> []" using parse_parts_temperature [OF d] dt by auto
  have H: "?H \<noteq> []" using parse_parts_humidity [OF d] dh by auto
  have "\<exists>t. pf (drop 5 (last ?T)) = Some t \<and> map_of d ''temperature'' = Some (PyFloat t)"
    using parse_parts_temperature [OF d] dt T by (cases "pf (drop 5 (last ?T))") auto
  moreover
  have "\<exists>h. pf (drop 4 (last ?H)) = Some h \<and> map_of d ''humidity'' = Some (PyFloat h)"
    using parse_parts_humidity [OF d] dh H by (cases "pf (drop 4 (last ?H))") auto
  moreover
  have "if ?S = [] then map_of d ''status'' = None
        else (\<exists>n. pn (drop 7 (last ?S)) = Some n \<and> map_of d ''status'' = Some (PyInt n))"
  proof (cases "?S = []")
    case True
    then show ?thesis using parse_parts_status [OF d] by simp
  next
    case False
    then have "last ?S \<in> set ?ps" "startswith (last ?S) ''STATUS:''"
      using last_in_set [OF False] by auto
    with ok have "pn (drop 7 (last ?S)) \<noteq> None"
      by (auto simp: undecodable_def)
    then show ?thesis using parse_parts_status [OF d] False by auto
  qed
  ultimately show ?thesis by blast
qed

theorem last_occurrence_wins_witness:
  "parse_sensor_data decimal_float decimal_int ''TEMP:1 HUM:2 TEMP:3 STATUS:4 HUM:5 STATUS:6'' =
     Inr (Some [(''temperature'', PyFloat 3), (''humidity'', PyFloat 5), (''status'', PyInt 6)]) \<and>
   last (filter (\<lambda>p. startswith p ''TEMP:'')
     (str_split (str_strip ''TEMP:1 HUM:2 TEMP:3 STATUS:4 HUM:5 STATUS:6''))) = ''TEMP:3'' \<and>
   (\<exists>t. decimal_float (drop 5 (last (filter (\<lambda>p. startswith p ''TEMP:'')
       (str_split (str_strip ''TEMP:1 HUM:2 TEMP:3 STATUS:4 HUM:5 STATUS:6''))))) = Some t \<and>
     map_of [(''temperature'', PyFloat 3), (''humidity'', PyFloat 5), (''status'', PyInt 6)]
       ''temperature'' = Some (PyFloat t))"
proof -
  let ?s = "''TEMP:1 HUM:2 TEMP:3 STATUS:4 HUM:5 STATUS:6''"
  let ?d = "[(''temperature'', PyFloat (3::real)), (''humidity'', PyFloat 5), (''status'', PyInt 6)]"
  have ps: "str_split (str_strip ?s) =
      [''TEMP:1'', ''HUM:2'', ''TEMP:3'', ''STATUS:4'', ''HUM:5'', ''STATUS:6'']"
    by (simp add: str_split_def str_strip_def isspace_def)
  have f: "decimal_float ''1'' = Some 1" "decimal_float ''2'' = Some 2"
      "decimal_float ''3'' = Some 3" "decimal_float ''5'' = Some 5"
    by (simp_all add: run_decoders)
  have n: "decimal_int ''4'' = Some 4" "decimal_int ''6'' = Some 6"
    by (simp_all add: run_decoders)
  have r: "parse_sensor_data decimal_float decimal_int ?s = Inr (Some ?d)"
    by (simp add: parse_sensor_data_eq ps parse_part_def startswith_def f n)
  have l: "last (filter (\<lambda>p. startswith p ''TEMP:'') (str_split (str_strip ?s))) = ''TEMP:3''"
    unfolding ps by (simp add: startswith_def)
  from last_occurrence_wins [OF r] r l show ?thesis by blast
qed

text \<open>
  Claim C8. The parser returns on every line and no exception leaves it: an exception of
  the \<^verbatim>\<open>try\<close> block is always one the handler catches, and the result is then \<open>None\<close>.
  The empty line and a line of whitespace only are rejected.
\<close>

theorem parse_sensor_data_total:
  "(\<exists>r. parse_sensor_data pf pn s = Inr r) \<and>
   (\<forall>e. parse_try pf pn s = Inl e \<longrightarrow> is_Exception e \<and> parse_sensor_data pf pn s = Inr None) \<and>
   ((\<forall>c\<in>set s. isspace c) \<longrightarrow> parse_sensor_data pf pn s = Inr None) \<and>
   parse_sensor_data pf pn [] = Inr None"
proof -
  have a: "\<exists>r. parse_sensor_data pf pn s = Inr r"
    by (cases "parse_sensor_data pf pn s") (simp_all add: parse_sensor_data_not_Inl)
  have b: "is_Exception e \<and> parse_sensor_data pf pn s = Inr None"
    if e: "parse_try pf pn s = Inl e" for e
  proof -
    from e have "parse_parts pf pn (str_split (str_strip s)) [] = Inl e"
      by (auto simp: parse_try_def split: sum.splits if_splits)
    then have "e = ValueError" by (rule parse_parts_Inl)
    with e show ?thesis by (simp add: parse_sensor_data_def)
  qed
  have c: "parse_sensor_data pf pn s = Inr None" if "\<forall>c\<in>set s. isspace c"
  proof -
    from that have "str_strip s = []" by (rule str_strip_whitespace)
    then show ?thesis by (simp add: parse_sensor_data_eq str_split_def)
  qed
  have d: "parse_sensor_data pf pn [] = Inr None"
    by (simp add: parse_sensor_data_eq str_split_def str_strip_def)
  from a b c d show ?thesis by blast
qed

theorem parse_sensor_data_total_witness:
  "parse_try decimal_float decimal_int ''TEMP:abc HUM:60.2'' = Inl ValueError \<and>
   parse_sensor_data decimal_float decimal_int ''TEMP:abc HUM:60.2'' = Inr None \<and>
   parse_sensor_data decimal_float decimal_int ''   '' = Inr None"
proof -
  have ps: "str_split (str_strip ''TEMP:abc HUM:60.2'') = [''TEMP:abc'', ''HUM:60.2'']"
    by (simp add: str_split_def str_strip_def isspace_def)
  have "decimal_float ''abc'' = None"
    by (simp add: run_decoders)
  then have t: "parse_try decimal_float decimal_int ''TEMP:abc HUM:60.2'' = Inl ValueError"
    by (simp add: parse_try_def ps parse_part_def startswith_def)
  have w: "\<forall>c\<in>set ''   ''. isspace c"
    by (simp add: isspace_def)
  from parse_sensor_data_total [of decimal_float decimal_int "''TEMP:abc HUM:60.2''"]
    parse_sensor_data_total [of decimal_float decimal_int "''   ''"] t w
  show ?thesis by blast
qed

text \<open>
  Claim C10. A token is handed to a decoder exactly when it begins with one of the literal
  prefixes \<^verbatim>\<open>TEMP:\<close>, \<^verbatim>\<open>HUM:\<close>, \<^verbatim>\<open>STATUS:\<close> (with decoders that reject everything,
  the recognized tokens are the ones that raise). Any other token leaves the dictionary
  as it is and raises nothing, so two lines with the same recognized tokens have the same
  result; the tokens \<^verbatim>\<open>TEMP\<close>, \<^verbatim>\<open>temp:20\<close> and \<^verbatim>\<open>TEMPERATURE:20\<close> are ignored in
  this way.
\<close>

theorem key_recognition:
  "(recognized p \<longleftrightarrow> parse_part (\<lambda>x. None) (\<lambda>x. None) p (d :: 'f dict) = Inl ValueError) \<and>
   (\<not> recognized p \<longrightarrow> parse_part pf pn p d = Inr d) \<and>
   (filter recognized (str_split (str_strip s)) = filter recognized (str_split (str_strip s')) \<longrightarrow>
      parse_sensor_data pf pn s = parse_sensor_data pf pn s') \<and>
   parse_part pf pn ''TEMP'' d = Inr d \<and>
   parse_part pf pn ''temp:20'' d = Inr d \<and>
   parse_part pf pn ''TEMPERATURE:20'' d = Inr d"
proof (intro conjI impI)
  show "recognized p \<longleftrightarrow> parse_part (\<lambda>x. None) (\<lambda>x. None) p d = Inl ValueError"
    by (simp add: parse_part_def recognized_def)
next
  assume "\<not> recognized p"
  then show "parse_part pf pn p d = Inr d" by (rule parse_part_unrecognized)
next
  assume "filter recognized (str_split (str_strip s)) = filter recognized (str_split (str_strip s'))"
  then have "parse_parts pf pn (str_split (str_strip s)) [] =
      parse_parts pf pn (str_split (str_strip s')) []"
    using parse_parts_filter_recognized [of pf pn "str_split (str_strip s)" "[]"]
      parse_parts_filter_recognized [of pf pn "str_split (str_strip s')" "[]"] by simp
  then show "parse_sensor_data pf pn s = parse_sensor_data pf pn s'"
    by (simp add: parse_sensor_data_eq)
next
  show "parse_part pf pn ''TEMP'' d = Inr d"
    by (simp add: parse_part_def startswith_def)
next
  show "parse_part pf pn ''temp:20'' d = Inr d"
    by (simp add: parse_part_def startswith_def)
next
  show "parse_part pf pn ''TEMPERATURE:20'' d = Inr d"
    by (simp add: parse_part_def startswith_def)
qed

theorem key_recognition_witness:
  "\<not> recognized ''Temp:x'' \<and>
   parse_part decimal_float decimal_int ''Temp:x'' [] = Inr [] \<and>
   parse_sensor_data decimal_float decimal_int ''TEMP temp:20 TEMP:1 TEMPERATURE:20 HUM:2 hum:x'' =
   parse_sensor_data decimal_float decimal_int ''TEMP:1 HUM:2'' \<and>
   parse_sensor_data decimal_float decimal_int ''TEMP:1 HUM:2'' =
     Inr (Some [(''temperature'', PyFloat 1), (''humidity'', PyFloat 2)])"
proof -
  let ?s = "''TEMP temp:20 TEMP:1 TEMPERATURE:20 HUM:2 hum:x''"
  have ps: "str_split (str_strip ?s) =
      [''TEMP'', ''temp:20'', ''TEMP:1'', ''TEMPERATURE:20'', ''HUM:2'', ''hum:x'']"
    by (simp add: str_split_def str_strip_def isspace_def)
  have ps': "str_split (str_strip ''TEMP:1 HUM:2'') = [''TEMP:1'', ''HUM:2'']"
    by (simp add: str_split_def str_strip_def isspace_def)
  have eq: "filter recognized (str_split (str_strip ?s)) =
      filter recognized (str_split (str_strip ''TEMP:1 HUM:2''))"
    unfolding ps ps' by (simp add: recognized_def startswith_def)
  have u: "\<not> recognized ''Temp:x''"
    by (simp add: recognized_def startswith_def)
  have f: "decimal_float ''1'' = Some 1" "decimal_float ''2'' = Some 2"
    by (simp_all add: run_decoders)
  have r: "parse_sensor_data decimal_float decimal_int ''TEMP:1 HUM:2'' =
     Inr (Some [(''temperature'', PyFloat 1), (''humidity'', PyFloat 2)])"
    by (simp add: parse_sensor_data_eq ps' parse_part_def startswith_def f)
  from key_recognition [of "''Temp:x''" "[]" decimal_float decimal_int ?s "''TEMP:1 HUM:2''"] eq u r
  show ?thesis by blast
qed

section \<open>Properties of the publisher\<close>

lemma publish_try_valid:
  "map_of d ''temperature'' = Some t \<Longrightarrow> map_of d ''humidity'' = Some h \<Longrightarrow>
   publish_try ts d c =
     (None, c\<lparr>trace := trace c @
        [MqttPublish MQTT_TOPIC_TEMP
           (JsonDumps [(''value'', t), (''timestamp'', PyStr ts), (''unit'', PyStr degC)]),
         MqttPublish MQTT_TOPIC_HUM
           (JsonDumps [(''value'', h), (''timestamp'', PyStr ts), (''unit'', PyStr ''%'')])]\<rparr>)"
  by (simp add: publish_try_def emit_def)

lemma publish_try_cong:
  "map_of d1 ''temperature'' = map_of d2 ''temperature'' \<Longrightarrow>
   map_of d1 ''humidity'' = map_of d2 ''humidity'' \<Longrightarrow>
   publish_try ts d1 c = publish_try ts d2 c"
  unfolding publish_try_def by (simp only:)

text \<open>
  Claim C4. For a reading with a temperature and a humidity, one call of
  \<^verbatim>\<open>publish_data\<close> returns normally and adds exactly two calls to the trace: a publish of
  the temperature to the temperature topic, then a publish of the humidity to the
  humidity topic. Both payloads carry the one timestamp read at the start of the call, and
  the units are the degree sign followed by \<^verbatim>\<open>C\<close>, and \<^verbatim>\<open>%\<close>.
\<close>

theorem publish_data_two_messages:
  "map_of sensor_data ''temperature'' = Some t \<and> map_of sensor_data ''humidity'' = Some h \<longrightarrow>
   publish_data ts sensor_data c =
     (None, c\<lparr>trace := trace c @
        [MqttPublish MQTT_TOPIC_TEMP
           (JsonDumps [(''value'', t), (''timestamp'', PyStr ts), (''unit'', PyStr [CHR 0xB0, CHR ''C''])]),
         MqttPublish MQTT_TOPIC_HUM
           (JsonDumps [(''value'', h), (''timestamp'', PyStr ts), (''unit'', PyStr ''%'')])]\<rparr>)"
  by (simp add: publish_data_def publish_try_valid degC_def)

theorem publish_data_two_messages_witness:
  "publish_data ''2024-05-01T12:00:00.000000''
     [(''temperature'', PyFloat (23.5::real)), (''humidity'', PyFloat 60.2), (''status'', PyInt 1)]
     init_collector =
   (None, \<lparr>serial_conn = None, running = True, trace =
      [MqttPublish ''home/room1/temperature''
         (JsonDumps [(''value'', PyFloat 23.5), (''timestamp'', PyStr ''2024-05-01T12:00:00.000000''),
                     (''unit'', PyStr [CHR 0xB0, CHR ''C''])]),
       MqttPublish ''home/room1/humidity''
         (JsonDumps [(''value'', PyFloat 60.2), (''timestamp'', PyStr ''2024-05-01T12:00:00.000000''),
                     (''unit'', PyStr ''%'')])]\<rparr>)"
  using publish_data_two_messages
    [of "[(''temperature'', PyFloat (23.5::real)), (''humidity'', PyFloat 60.2), (''status'', PyInt 1)]"
        "PyFloat 23.5" "PyFloat 60.2" "''2024-05-01T12:00:00.000000''" init_collector]
  by (simp add: init_collector_def MQTT_TOPIC_TEMP_def MQTT_TOPIC_HUM_def)

text \<open>
  Claim C9. The status of a reading has no influence on what \<^verbatim>\<open>publish_data\<close> does: two
  dictionaries with the same temperature and the same humidity entries lead to the same
  result and the same trace, whether the status is changed, set or removed.
\<close>

theorem status_not_published:
  "(map_of d1 ''temperature'' = map_of d2 ''temperature'' \<and>
    map_of d1 ''humidity'' = map_of d2 ''humidity'' \<longrightarrow>
    publish_data ts d1 c = publish_data ts d2 c) \<and>
   publish_data ts (AList.update ''status'' v d) c = publish_data ts d c \<and>
   publish_data ts (AList.delete ''status'' d) c = publish_data ts d c"
proof -
  have a: "publish_data ts x c = publish_data ts y c"
    if "map_of x ''temperature'' = map_of y ''temperature''"
      and "map_of x ''humidity'' = map_of y ''humidity''" for x y :: "'a dict"
    using publish_try_cong [OF that] by (simp add: publish_data_def)
  have b: "publish_data ts (AList.update ''status'' v d) c = publish_data ts d c"
    by (rule a) (simp_all add: update_conv')
  have c: "publish_data ts (AList.delete ''status'' d) c = publish_data ts d c"
    by (rule a) (simp_all add: delete_conv')
  from a b c show ?thesis by blast
qed

theorem status_not_published_witness:
  "publish_data ''2024-05-01T12:00:00''
     [(''temperature'', PyFloat (23.5::real)), (''humidity'', PyFloat 60.2), (''status'', PyInt 1)]
     init_collector =
   publish_data ''2024-05-01T12:00:00''
     [(''temperature'', PyFloat 23.5), (''humidity'', PyFloat 60.2)] init_collector"
  using status_not_published
    [of "[(''temperature'', PyFloat (23.5::real)), (''humidity'', PyFloat 60.2), (''status'', PyInt 1)]"
        "[(''temperature'', PyFloat 23.5), (''humidity'', PyFloat 60.2)]"
        "''2024-05-01T12:00:00''" init_collector]
  by simp

section \<open>Properties of the poll loop\<close>

lemma elapsed_append: "elapsed (xs @ ys) = elapsed xs + elapsed ys"
  by (simp add: elapsed_def)

lemma callbacks_effect:
  "\<exists>acts. fold on_mqtt_connect rcs c = c\<lparr>trace := trace c @ acts\<rparr> \<and>
     (\<forall>a\<in>set acts. loop_action a) \<and>
     filter (\<lambda>a. a = SerialWrite ''R'') acts = [] \<and> elapsed acts = 0"
proof (induction rcs arbitrary: c)
  case Nil
  show ?case by (rule exI [of _ "[]"]) (simp add: elapsed_def)
next
  case (Cons rc rcs)
  obtain a1 where a1: "on_mqtt_connect rc c = c\<lparr>trace := trace c @ a1\<rparr>"
    "\<forall>a\<in>set a1. loop_action a" "filter (\<lambda>a. a = SerialWrite ''R'') a1 = []" "elapsed a1 = 0"
  proof (cases "rc = 0")
    case True
    then have "on_mqtt_connect rc c =
        c\<lparr>trace := trace c @ [MqttPublish MQTT_TOPIC_STATUS (Text ''online'')]\<rparr>"
      by (simp add: on_mqtt_connect_def emit_def)
    then show ?thesis by (rule that) (simp_all add: elapsed_def)
  next
    case False
    then have "on_mqtt_connect rc c = c\<lparr>trace := trace c @ []\<rparr>"
      by (simp add: on_mqtt_connect_def)
    then show ?thesis by (rule that) (simp_all add: elapsed_def)
  qed
  from Cons.IH [of "c\<lparr>trace := trace c @ a1\<rparr>"] obtain a2 where
    a2: "fold on_mqtt_connect rcs (c\<lparr>trace := trace c @ a1\<rparr>) = c\<lparr>trace := trace c @ (a1 @ a2)\<rparr>"
    "\<forall>a\<in>set a2. loop_action a" "filter (\<lambda>a. a = SerialWrite ''R'') a2 = []" "elapsed a2 = 0"
    by auto
  show ?case
    using a1 a2 by (intro exI [of _ "a1 @ a2"]) (auto simp: elapsed_append)
qed

lemma publish_data_effect:
  "\<exists>acts. publish_data ts d c = (None, c\<lparr>trace := trace c @ acts\<rparr>) \<and>
     (\<forall>a\<in>set acts. loop_action a) \<and>
     filter (\<lambda>a. a = SerialWrite ''R'') acts = [] \<and> elapsed acts = 0"
proof (cases "map_of d ''temperature''")
  case None
  then have "publish_data ts d c = (None, c\<lparr>trace := trace c @ []\<rparr>)"
    by (simp add: publish_data_def publish_try_def)
  then show ?thesis by (intro exI [of _ "[]"]) (simp add: elapsed_def)
next
  case (Some t)
  show ?thesis
  proof (cases "map_of d ''humidity''")
    case None
    with Some have "publish_data ts d c =
        (None, c\<lparr>trace := trace c @ [MqttPublish MQTT_TOPIC_TEMP
           (JsonDumps [(''value'', t), (''timestamp'', PyStr ts), (''unit'', PyStr degC)])]\<rparr>)"
      by (simp add: publish_data_def publish_try_def emit_def)
    then show ?thesis
      by (intro exI [of _ "[MqttPublish MQTT_TOPIC_TEMP
           (JsonDumps [(''value'', t), (''timestamp'', PyStr ts), (''unit'', PyStr degC)])]"])
        (simp add: elapsed_def)
  next
    case h: (Some h)
    from publish_try_valid [OF Some h, of ts c] have "publish_data ts d c =
        (None, c\<lparr>trace := trace c @ [MqttPublish MQTT_TOPIC_TEMP
           (JsonDumps [(''value'', t), (''timestamp'', PyStr ts), (''unit'', PyStr degC)]),
         MqttPublish MQTT_TOPIC_HUM
           (JsonDumps [(''value'', h), (''timestamp'', PyStr ts), (''unit'', PyStr ''%'')])]\<rparr>)"
      by (simp add: publish_data_def)
    then show ?thesis
      by (intro exI [of _ "[MqttPublish MQTT_TOPIC_TEMP
           (JsonDumps [(''value'', t), (''timestamp'', PyStr ts), (''unit'', PyStr degC)]),
         MqttPublish MQTT_TOPIC_HUM
           (JsonDumps [(''value'', h), (''timestamp'', PyStr ts), (''unit'', PyStr ''%'')])]"])
        (simp add: elapsed_def)
  qed
qed

lemma publish_data_sigint_effect:
  "\<exists>acts r. publish_data_sigint ts d c = (r, c\<lparr>trace := trace c @ acts\<rparr>) \<and>
     (r = None \<or> r = Some KeyboardInterrupt) \<and>
     (\<forall>a\<in>set acts. loop_action a) \<and>
     filter (\<lambda>a. a = SerialWrite ''R'') acts = [] \<and> elapsed acts = 0"
proof (cases "map_of d ''temperature''")
  case None
  then have "publish_data_sigint ts d c = (None, c\<lparr>trace := trace c @ []\<rparr>)"
    by (simp add: publish_data_sigint_def publish_try_sigint_def)
  then show ?thesis by (intro exI [of _ "[]"] exI [of _ None]) (simp add: elapsed_def)
next
  case (Some t)
  then have "publish_data_sigint ts d c =
      (Some KeyboardInterrupt, c\<lparr>trace := trace c @ [MqttPublish MQTT_TOPIC_TEMP
         (JsonDumps [(''value'', t), (''timestamp'', PyStr ts), (''unit'', PyStr degC)])]\<rparr>)"
    by (simp add: publish_data_sigint_def publish_try_sigint_def emit_def)
  then show ?thesis
    by (intro exI [of _ "[MqttPublish MQTT_TOPIC_TEMP
         (JsonDumps [(''value'', t), (''timestamp'', PyStr ts), (''unit'', PyStr degC)])]"]
        exI [of _ "Some KeyboardInterrupt"]) (simp add: elapsed_def)
qed

lemma process_effect:
  "\<exists>acts r. process pf pn sig ts data c = (r, c\<lparr>trace := trace c @ acts\<rparr>) \<and>
     (r = None \<or> (sig \<and> r = Some KeyboardInterrupt)) \<and>
     (\<forall>a\<in>set acts. loop_action a) \<and>
     filter (\<lambda>a. a = SerialWrite ''R'') acts = [] \<and> elapsed acts = 0"
proof -
  have "process pf pn sig ts data c = (None, c) \<or>
      (\<not> sig \<and> (\<exists>d. process pf pn sig ts data c = publish_data ts d c)) \<or>
      (sig \<and> (\<exists>d. process pf pn sig ts data c = publish_data_sigint ts d c))"
    by (auto simp: process_def parse_sensor_data_not_Inl split: option.splits sum.splits)
  then consider "process pf pn sig ts data c = (None, c)"
    | d where "\<not> sig" "process pf pn sig ts data c = publish_data ts d c"
    | d where "sig" "process pf pn sig ts data c = publish_data_sigint ts d c"
    by blast
  then show ?thesis
  proof cases
    case 1
    then have "process pf pn sig ts data c = (None, c\<lparr>trace := trace c @ []\<rparr>)" by simp
    then show ?thesis by (intro exI [of _ "[]"] exI [of _ None]) (simp add: elapsed_def)
  next
    case 2
    with publish_data_effect [of ts d c] show ?thesis by auto
  next
    case 3
    with publish_data_sigint_effect [of ts d c] show ?thesis by auto
  qed
qed

lemma cycle_effect:
  assumes s: "serial_conn c = Some s"
  shows "\<exists>acts c'. cycle pf pn e c = (if sigint e = None then None else Some KeyboardInterrupt, c') \<and>
     serial_conn c' = serial_conn c \<and> running c' = (running c \<and> \<not> flag_cleared e) \<and>
     trace c' = trace c @ acts \<and> (\<forall>a\<in>set acts. loop_action a) \<and>
     length (filter (\<lambda>a. a = SerialWrite ''R'') acts) = (if sigint e = Some Request then 0 else 1) \<and>
     elapsed acts =
       (case sigint e of None \<Rightarrow> 5 | Some st \<Rightarrow> if st = Request \<or> st = Settle then 0 else 1)"
proof -
  let ?cf = "if flag_cleared e then c\<lparr>running := False\<rparr> else c"
  have cf: "serial_conn ?cf = Some s" "trace ?cf = trace c"
    "running ?cf = (running c \<and> \<not> flag_cleared e)"
    using s by simp_all
  obtain a0 where c0: "fold on_mqtt_connect (connacks e) ?cf = ?cf\<lparr>trace := trace ?cf @ a0\<rparr>"
    and a0: "\<forall>a\<in>set a0. loop_action a" "filter (\<lambda>a. a = SerialWrite ''R'') a0 = []"
      "elapsed a0 = 0"
    using callbacks_effect [of "connacks e" ?cf] by blast
  let ?c0 = "?cf\<lparr>trace := trace c @ a0\<rparr>"
  let ?c1 = "?cf\<lparr>trace := trace c @ a0 @ [SerialWrite ''R'']\<rparr>"
  let ?c2 = "?cf\<lparr>trace := trace c @ a0 @ [SerialWrite ''R'', Sleep 1]\<rparr>"
  have c0': "fold on_mqtt_connect (connacks e) ?cf = ?c0"
    using c0 cf(2) by simp
  have c1: "request_sensor_reading ?c0 = ?c1"
    using cf(1) by (simp add: request_sensor_reading_def emit_def)
  have c2: "emit (Sleep 1) ?c1 = ?c2"
    by (simp add: emit_def)
  obtain a3 r where p: "process pf pn (sigint e = Some Publish) (clock e)
        (read_sensor_data (rx e) ?c2) ?c2 = (r, ?c2\<lparr>trace := trace ?c2 @ a3\<rparr>)"
    and r: "r = None \<or> (sigint e = Some Publish \<and> r = Some KeyboardInterrupt)"
    and a3: "\<forall>a\<in>set a3. loop_action a" "filter (\<lambda>a. a = SerialWrite ''R'') a3 = []"
      "elapsed a3 = 0"
    using process_effect [of pf pn "sigint e = Some Publish" "clock e"
        "read_sensor_data (rx e) ?c2" ?c2] by blast
  let ?c3 = "?cf\<lparr>trace := trace c @ a0 @ [SerialWrite ''R'', Sleep 1] @ a3\<rparr>"
  have p': "process pf pn (sigint e = Some Publish) (clock e)
        (read_sensor_data (rx e) ?c2) ?c2 = (r, ?c3)"
    using p by simp
  have unfold: "cycle pf pn e c =
     (if sigint e = Some Request then (Some KeyboardInterrupt, ?c0)
      else if sigint e = Some Settle then (Some KeyboardInterrupt, ?c1)
      else if sigint e = Some Read then (Some KeyboardInterrupt, ?c2)
      else (case r of
              Some x \<Rightarrow> (Some x, ?c3)
            | None \<Rightarrow>
                if sigint e = Some Publish \<or> sigint e = Some Wait
                then (Some KeyboardInterrupt, ?c3)
                else (None, emit (Sleep 4) ?c3)))"
    unfolding cycle_def Let_def c0' c1 c2 p' by (cases r) simp_all
  consider "sigint e = Some Request" | "sigint e = Some Settle" | "sigint e = Some Read"
    | "sigint e = Some Publish" | "sigint e = Some Wait" | "sigint e = None"
    by (cases "sigint e") (auto intro: stage.exhaust)
  then show ?thesis
  proof cases
    case 1
    with unfold have "cycle pf pn e c = (Some KeyboardInterrupt, ?c0)" by simp
    with 1 s cf a0 show ?thesis
      by (intro exI [of _ a0] exI [of _ ?c0]) simp
  next
    case 2
    with unfold have "cycle pf pn e c = (Some KeyboardInterrupt, ?c1)" by simp
    with 2 s cf a0 show ?thesis
      by (intro exI [of _ "a0 @ [SerialWrite ''R'']"] exI [of _ ?c1])
        (auto simp: elapsed_def)
  next
    case 3
    with unfold have "cycle pf pn e c = (Some KeyboardInterrupt, ?c2)" by simp
    with 3 s cf a0 show ?thesis
      by (intro exI [of _ "a0 @ [SerialWrite ''R'', Sleep 1]"] exI [of _ ?c2])
        (auto simp: elapsed_def)
  next
    case 4
    with unfold r have "cycle pf pn e c = (Some KeyboardInterrupt, ?c3)" by auto
    with 4 s cf a0 a3 show ?thesis
      by (intro exI [of _ "a0 @ [SerialWrite ''R'', Sleep 1] @ a3"] exI [of _ ?c3])
        (auto simp: elapsed_def)
  next
    case 5
    with unfold r have "cycle pf pn e c = (Some KeyboardInterrupt, ?c3)" by auto
    with 5 s cf a0 a3 show ?thesis
      by (intro exI [of _ "a0 @ [SerialWrite ''R'', Sleep 1] @ a3"] exI [of _ ?c3])
        (auto simp: elapsed_def)
  next
    case 6
    with unfold r have "cycle pf pn e c = (None, emit (Sleep 4) ?c3)" by auto
    with 6 s cf a0 a3 show ?thesis
      by (intro exI [of _ "a0 @ [SerialWrite ''R'', Sleep 1] @ a3 @ [Sleep 4]"]
          exI [of _ "emit (Sleep 4) ?c3"])
        (auto simp: elapsed_def emit_def)
  qed
qed

lemma poll_loop_interrupt:
  assumes "running c" and "serial_conn c = Some s"
    and "\<forall>x\<in>set pre. sigint x = None \<and> \<not> flag_cleared x" and "sigint e = Some st"
  shows "\<exists>acts c'. poll_loop pf pn (pre @ e # post) c = Some (Some KeyboardInterrupt, c') \<and>
     serial_conn c' = serial_conn c \<and> trace c' = trace c @ acts \<and>
     (\<forall>a\<in>set acts. loop_action a) \<and>
     length (filter (\<lambda>a. a = SerialWrite ''R'') acts) =
       length pre + (if st = Request then 0 else 1) \<and>
     elapsed acts = 5 * length pre + (if st = Request \<or> st = Settle then 0 else 1)"
  using assms
proof (induction pre arbitrary: c)
  case Nil
  from cycle_effect [OF Nil(2), of pf pn e] Nil(4) obtain acts c' where
    "cycle pf pn e c = (Some KeyboardInterrupt, c')" "serial_conn c' = serial_conn c"
    "trace c' = trace c @ acts" "\<forall>a\<in>set acts. loop_action a"
    "length (filter (\<lambda>a. a = SerialWrite ''R'') acts) = (if st = Request then 0 else 1)"
    "elapsed acts = (if st = Request \<or> st = Settle then 0 else 1)"
    by auto
  with Nil(1) show ?case by auto
next
  case (Cons x pre)
  from Cons.prems(3) have x: "sigint x = None" "\<not> flag_cleared x" by simp_all
  from cycle_effect [OF Cons.prems(2), of pf pn x] x obtain a1 c1 where
    c1: "cycle pf pn x c = (None, c1)" "serial_conn c1 = serial_conn c" "running c1 = running c"
      "trace c1 = trace c @ a1"
    and a1: "\<forall>a\<in>set a1. loop_action a" "length (filter (\<lambda>a. a = SerialWrite ''R'') a1) = 1"
      "elapsed a1 = 5"
    by auto
  have "running c1" "serial_conn c1 = Some s" "\<forall>x\<in>set pre. sigint x = None \<and> \<not> flag_cleared x"
    using c1 Cons.prems by simp_all
  from Cons.IH [OF this Cons.prems(4)] obtain a2 c' where
    r: "poll_loop pf pn (pre @ e # post) c1 = Some (Some KeyboardInterrupt, c')"
      "serial_conn c' = serial_conn c1" "trace c' = trace c1 @ a2"
    and a2: "\<forall>a\<in>set a2. loop_action a"
      "length (filter (\<lambda>a. a = SerialWrite ''R'') a2) = length pre + (if st = Request then 0 else 1)"
      "elapsed a2 = 5 * length pre + (if st = Request \<or> st = Settle then 0 else 1)"
    by blast
  have "poll_loop pf pn ((x # pre) @ e # post) c = Some (Some KeyboardInterrupt, c')"
    using Cons.prems(1) c1(1) r(1) by simp
  moreover have "serial_conn c' = serial_conn c" "trace c' = trace c @ (a1 @ a2)"
    using c1 r by simp_all
  moreover have "\<forall>a\<in>set (a1 @ a2). loop_action a" using a1 a2 by auto
  moreover have "length (filter (\<lambda>a. a = SerialWrite ''R'') (a1 @ a2)) =
      length (x # pre) + (if st = Request then 0 else 1)"
    using a1 a2 by simp
  moreover have "elapsed (a1 @ a2) =
      5 * length (x # pre) + (if st = Request \<or> st = Settle then 0 else 1)"
    using a1 a2 by (simp add: elapsed_append)
  ultimately show ?case by blast
qed

lemma stop_open:
  "serial_conn c = Some \<lparr>is_open = True\<rparr> \<Longrightarrow>
   \<not> running (stop c) \<and> serial_conn (stop c) = Some \<lparr>is_open = False\<rparr> \<and>
   trace (stop c) = trace c @
     [MqttPublish MQTT_TOPIC_STATUS (Text ''offline''), MqttLoopStop, MqttDisconnect, SerialClose]"
  by (simp add: stop_def emit_def)

lemma loop_actions_no_close:
  "\<forall>a\<in>set acts. loop_action a \<Longrightarrow> filter (\<lambda>a. a = SerialClose) acts = []"
  by (auto simp: filter_empty_conv)

lemma offline_not_loop_action:
  "\<not> loop_action (MqttPublish MQTT_TOPIC_STATUS (Text ''offline''))"
  by (simp add: MQTT_TOPIC_STATUS_def MQTT_TOPIC_TEMP_def MQTT_TOPIC_HUM_def)

lemma poll_loop_flag_exit:
  assumes "running c" and "serial_conn c = Some s"
    and "\<forall>x\<in>set pre. sigint x = None \<and> \<not> flag_cleared x"
    and "sigint e = None" and "flag_cleared e"
  shows "\<exists>acts c'. poll_loop pf pn (pre @ e # post) c = Some (None, c') \<and>
     \<not> running c' \<and> serial_conn c' = serial_conn c \<and> trace c' = trace c @ acts \<and>
     (\<forall>a\<in>set acts. loop_action a)"
  using assms
proof (induction pre arbitrary: c)
  case Nil
  from cycle_effect [OF Nil(2), of pf pn e] Nil(4,5) obtain acts c' where
    c': "cycle pf pn e c = (None, c')" "serial_conn c' = serial_conn c" "\<not> running c'"
    "trace c' = trace c @ acts" "\<forall>a\<in>set acts. loop_action a"
    by auto
  then have "poll_loop pf pn post c' = Some (None, c')"
    by (cases post) simp_all
  with Nil(1) c' show ?case by auto
next
  case (Cons x pre)
  from Cons.prems(3) have x: "sigint x = None" "\<not> flag_cleared x" by simp_all
  from cycle_effect [OF Cons.prems(2), of pf pn x] x obtain a1 c1 where
    c1: "cycle pf pn x c = (None, c1)" "serial_conn c1 = serial_conn c" "running c1 = running c"
      "trace c1 = trace c @ a1"
    and a1: "\<forall>a\<in>set a1. loop_action a"
    by auto
  have "running c1" "serial_conn c1 = Some s" "\<forall>x\<in>set pre. sigint x = None \<and> \<not> flag_cleared x"
    using c1 Cons.prems by simp_all
  from Cons.IH [OF this Cons.prems(4,5)] obtain a2 c' where
    r: "poll_loop pf pn (pre @ e # post) c1 = Some (None, c')" "\<not> running c'"
      "serial_conn c' = serial_conn c1" "trace c' = trace c1 @ a2"
    and a2: "\<forall>a\<in>set a2. loop_action a"
    by blast
  have "poll_loop pf pn ((x # pre) @ e # post) c = Some (None, c')"
    using Cons.prems(1) c1(1) r(1) by simp
  moreover have "serial_conn c' = serial_conn c" "trace c' = trace c @ (a1 @ a2)"
    using c1 r by simp_all
  moreover have "\<forall>a\<in>set (a1 @ a2). loop_action a" using a1 a2 by auto
  ultimately show ?case using r(2) by blast
qed

lemmas run_loop =
  run_def setup_uart_def setup_mqtt_def on_mqtt_connect_def cycle_def process_def
  read_sensor_data_def request_sensor_reading_def publish_data_def publish_try_def
  publish_data_sigint_def publish_try_sigint_def stop_def emit_def init_collector_def degC_def
  UART_PORT_def BAUD_RATE_def MQTT_BROKER_def MQTT_PORT_def
  MQTT_TOPIC_TEMP_def MQTT_TOPIC_HUM_def MQTT_TOPIC_STATUS_def

text \<open>
  Claim C5, as the specification states it, fails. There the shutdown request flips the
  run flag and the loop, on finding the flag cleared, disconnects and closes the serial
  connection before \<^verbatim>\<open>run\<close> returns. In the run below the flag is cleared during the
  first cycle: the cycle runs to its end, the loop test fails, and \<^verbatim>\<open>run\<close> returns
  with the port still open and with neither the \<^verbatim>\<open>"offline"\<close> publish nor the
  disconnect nor the close in its trace. \<^verbatim>\<open>stop\<close> is called by the
  \<^verbatim>\<open>KeyboardInterrupt\<close> handler only.
\<close>

theorem flag_exit_without_teardown:
  "run decimal_float decimal_int
     \<lparr>port_ok = True, broker_ok = True, early_connacks = [0], early_sigint = False, cycles =
        [\<lparr>rx = NoData, clock = ''2024-05-01T12:00:01'', connacks = [], flag_cleared = True,
          sigint = None\<rparr>],
      late_sigint = None\<rparr>
     init_collector =
   Some (None, \<lparr>serial_conn = Some \<lparr>is_open = True\<rparr>, running = False, trace =
     [SerialOpen ''/dev/ttyUSB0'' 9600, MqttConnect ''localhost'' 1883 60, MqttLoopStart,
      MqttPublish ''home/room1/status'' (Text ''online''), Sleep 2,
      SerialWrite ''R'', Sleep 1, Sleep 4]\<rparr>)"
  by (simp add: run_loop)

text \<open>
  Claim C5, amended. The shutdown request the code acts on is Ctrl+C. When it arrives in
  a cycle of the poll loop, at any of the modelled points (the publish calls included),
  after any number of complete cycles, and no further Ctrl+C cuts the handler short,
  \<^verbatim>\<open>run\<close> returns normally with the run flag cleared by \<^verbatim>\<open>stop\<close>. Its trace is the
  three setup calls, then calls of the connection callback and of the poll cycles only,
  then the publish of \<^verbatim>\<open>"offline"\<close> to the status topic, the stop of the network loop,
  the disconnect and the close of the serial connection, in this order; the serial
  connection is closed exactly once. Nothing lies between the interrupt and the
  teardown: the read requests are those of the cycles begun, and the sleeps that have
  run to their end add up to the two-second wait, five seconds for each complete cycle,
  and at most one second of the interrupted cycle, so the teardown falls into the cycle
  in which Ctrl+C arrives.
\<close>

theorem shutdown_teardown:
  "port_ok w \<and> broker_ok w \<and> \<not> early_sigint w \<and> late_sigint w = None \<and>
   cycles w = pre @ e # post \<and>
   (\<forall>x\<in>set pre. sigint x = None \<and> \<not> flag_cleared x) \<and> sigint e = Some st \<longrightarrow>
   (\<exists>acts c'. run pf pn w init_collector = Some (None, c') \<and>
      \<not> running c' \<and> serial_conn c' = Some \<lparr>is_open = False\<rparr> \<and>
      trace c' =
        [SerialOpen UART_PORT BAUD_RATE, MqttConnect MQTT_BROKER MQTT_PORT 60, MqttLoopStart]
        @ acts @
        [MqttPublish MQTT_TOPIC_STATUS (Text ''offline''), MqttLoopStop, MqttDisconnect, SerialClose] \<and>
      (\<forall>a\<in>set acts. loop_action a) \<and>
      MqttPublish MQTT_TOPIC_STATUS (Text ''offline'') \<notin> set acts \<and>
      length (filter (\<lambda>a. a = SerialWrite ''R'') acts) =
        length pre + (if st = Request then 0 else 1) \<and>
      elapsed acts = 2 + 5 * length pre + (if st = Request \<or> st = Settle then 0 else 1) \<and>
      length (filter (\<lambda>a. a = SerialClose) (trace c')) = 1)"
proof
  assume a: "port_ok w \<and> broker_ok w \<and> \<not> early_sigint w \<and> late_sigint w = None \<and>
   cycles w = pre @ e # post \<and>
   (\<forall>x\<in>set pre. sigint x = None \<and> \<not> flag_cleared x) \<and> sigint e = Some st"
  let ?opening = "[SerialOpen UART_PORT BAUD_RATE, MqttConnect MQTT_BROKER MQTT_PORT 60,
    MqttLoopStart :: 'a action]"
  let ?c2 = "\<lparr>serial_conn = Some \<lparr>is_open = True\<rparr>, running = True, trace = ?opening\<rparr>"
  obtain a0 where c3: "fold on_mqtt_connect (early_connacks w) ?c2 = ?c2\<lparr>trace := ?opening @ a0\<rparr>"
    and a0: "\<forall>a\<in>set a0. loop_action a" "filter (\<lambda>a. a = SerialWrite ''R'') a0 = []"
      "elapsed a0 = 0"
    using callbacks_effect [of "early_connacks w" ?c2] by auto
  let ?c4 = "?c2\<lparr>trace := ?opening @ a0 @ [Sleep 2]\<rparr>"
  have "running ?c4" "serial_conn ?c4 = Some \<lparr>is_open = True\<rparr>" by simp_all
  from poll_loop_interrupt [OF this, of pre e st pf pn post] a
  obtain a1 c5 where
    l: "poll_loop pf pn (pre @ e # post) ?c4 = Some (Some KeyboardInterrupt, c5)"
    and c5: "serial_conn c5 = Some \<lparr>is_open = True\<rparr>" "trace c5 = ?opening @ a0 @ [Sleep 2] @ a1"
    and a1: "\<forall>a\<in>set a1. loop_action a"
      "length (filter (\<lambda>a. a = SerialWrite ''R'') a1) = length pre + (if st = Request then 0 else 1)"
      "elapsed a1 = 5 * length pre + (if st = Request \<or> st = Settle then 0 else 1)"
    by auto
  let ?acts = "a0 @ [Sleep 2] @ a1"
  have r: "run pf pn w init_collector = Some (None, stop c5)"
    using a l c3
    by (simp add: run_def setup_uart_def setup_mqtt_def emit_def init_collector_def)
  have s: "\<not> running (stop c5)" "serial_conn (stop c5) = Some \<lparr>is_open = False\<rparr>"
    "trace (stop c5) = ?opening @ ?acts @
       [MqttPublish MQTT_TOPIC_STATUS (Text ''offline''), MqttLoopStop, MqttDisconnect, SerialClose]"
    using stop_open [OF c5(1)] c5(2) by simp_all
  have acts: "\<forall>a\<in>set ?acts. loop_action a" using a0 a1 by auto
  have w: "length (filter (\<lambda>a. a = SerialWrite ''R'') ?acts) =
      length pre + (if st = Request then 0 else 1)"
    using a0 a1 by simp
  have t: "elapsed ?acts = 2 + 5 * length pre + (if st = Request \<or> st = Settle then 0 else 1)"
    using a0 a1 by (simp add: elapsed_append) (simp add: elapsed_def)
  have off: "MqttPublish MQTT_TOPIC_STATUS (Text ''offline'') \<notin> set ?acts"
    using acts offline_not_loop_action by blast
  have "length (filter (\<lambda>a. a = SerialClose) (trace (stop c5))) = 1"
    unfolding s(3) using loop_actions_no_close [OF acts] by simp
  with r s acts w t off
  show "\<exists>acts c'. run pf pn w init_collector = Some (None, c') \<and>
      \<not> running c' \<and> serial_conn c' = Some \<lparr>is_open = False\<rparr> \<and>
      trace c' = ?opening @ acts @
        [MqttPublish MQTT_TOPIC_STATUS (Text ''offline''), MqttLoopStop, MqttDisconnect, SerialClose] \<and>
      (\<forall>a\<in>set acts. loop_action a) \<and>
      MqttPublish MQTT_TOPIC_STATUS (Text ''offline'') \<notin> set acts \<and>
      length (filter (\<lambda>a. a = SerialWrite ''R'') acts) =
        length pre + (if st = Request then 0 else 1) \<and>
      elapsed acts = 2 + 5 * length pre + (if st = Request \<or> st = Settle then 0 else 1) \<and>
      length (filter (\<lambda>a. a = SerialClose) (trace c')) = 1"
    by blast
qed

theorem shutdown_teardown_witness:
  "run decimal_float decimal_int
     \<lparr>port_ok = True, broker_ok = True, early_connacks = [0], early_sigint = False, cycles =
        [\<lparr>rx = Line ''TEMP:23.5 HUM:60.2 STATUS:1'', clock = ''2024-05-01T12:00:01'',
          connacks = [], flag_cleared = False, sigint = None\<rparr>,
         \<lparr>rx = Line ''TEMP:23.6 HUM:60.1 STATUS:1'', clock = ''2024-05-01T12:00:06'',
          connacks = [], flag_cleared = False, sigint = Some Publish\<rparr>,
         \<lparr>rx = NoData, clock = ''2024-05-01T12:00:11'', connacks = [], flag_cleared = False,
          sigint = None\<rparr>],
      late_sigint = None\<rparr>
     init_collector =
   Some (None, \<lparr>serial_conn = Some \<lparr>is_open = False\<rparr>, running = False, trace =
     [SerialOpen ''/dev/ttyUSB0'' 9600, MqttConnect ''localhost'' 1883 60, MqttLoopStart,
      MqttPublish ''home/room1/status'' (Text ''online''), Sleep 2,
      SerialWrite ''R'', Sleep 1,
      MqttPublish ''home/room1/temperature''
        (JsonDumps [(''value'', PyFloat 23.5), (''timestamp'', PyStr ''2024-05-01T12:00:01''),
                    (''unit'', PyStr [CHR 0xB0, CHR ''C''])]),
      MqttPublish ''home/room1/humidity''
        (JsonDumps [(''value'', PyFloat 60.2), (''timestamp'', PyStr ''2024-05-01T12:00:01''),
                    (''unit'', PyStr ''%'')]),
      Sleep 4,
      SerialWrite ''R'', Sleep 1,
      MqttPublish ''home/room1/temperature''
        (JsonDumps [(''value'', PyFloat 23.6), (''timestamp'', PyStr ''2024-05-01T12:00:06''),
                    (''unit'', PyStr [CHR 0xB0, CHR ''C''])]),
      MqttPublish ''home/room1/status'' (Text ''offline''), MqttLoopStop, MqttDisconnect,
      SerialClose]\<rparr>)"
proof -
  let ?e1 = "\<lparr>rx = Line ''TEMP:23.5 HUM:60.2 STATUS:1'', clock = ''2024-05-01T12:00:01'',
          connacks = [], flag_cleared = False, sigint = None\<rparr>"
  let ?e2 = "\<lparr>rx = Line ''TEMP:23.6 HUM:60.1 STATUS:1'', clock = ''2024-05-01T12:00:06'',
          connacks = [], flag_cleared = False, sigint = Some Publish\<rparr>"
  let ?e3 = "\<lparr>rx = NoData, clock = ''2024-05-01T12:00:11'', connacks = [], flag_cleared = False,
          sigint = None\<rparr>"
  let ?w = "\<lparr>port_ok = True, broker_ok = True, early_connacks = [0], early_sigint = False,
      cycles = [?e1, ?e2, ?e3], late_sigint = None\<rparr>"
  have p1: "parse_sensor_data decimal_float decimal_int ''TEMP:23.5 HUM:60.2 STATUS:1'' =
     Inr (Some [(''temperature'', PyFloat 23.5), (''humidity'', PyFloat 60.2), (''status'', PyInt 1)])"
    by (simp add: run_parser run_decoders)
  have p2: "parse_sensor_data decimal_float decimal_int ''TEMP:23.6 HUM:60.1 STATUS:1'' =
     Inr (Some [(''temperature'', PyFloat 23.6), (''humidity'', PyFloat 60.1), (''status'', PyInt 1)])"
    by (simp add: run_parser run_decoders)
  have h: "port_ok ?w \<and> broker_ok ?w \<and> \<not> early_sigint ?w \<and> late_sigint ?w = None \<and>
    cycles ?w = [?e1] @ ?e2 # [?e3] \<and>
    (\<forall>x\<in>set [?e1]. sigint x = None \<and> \<not> flag_cleared x) \<and> sigint ?e2 = Some Publish"
    by simp
  have r: "run decimal_float decimal_int ?w (init_collector :: real collector) =
   Some (None, \<lparr>serial_conn = Some \<lparr>is_open = False\<rparr>, running = False, trace =
     [SerialOpen ''/dev/ttyUSB0'' 9600, MqttConnect ''localhost'' 1883 60, MqttLoopStart,
      MqttPublish ''home/room1/status'' (Text ''online''), Sleep 2,
      SerialWrite ''R'', Sleep 1,
      MqttPublish ''home/room1/temperature''
        (JsonDumps [(''value'', PyFloat 23.5), (''timestamp'', PyStr ''2024-05-01T12:00:01''),
                    (''unit'', PyStr [CHR 0xB0, CHR ''C''])]),
      MqttPublish ''home/room1/humidity''
        (JsonDumps [(''value'', PyFloat 60.2), (''timestamp'', PyStr ''2024-05-01T12:00:01''),
                    (''unit'', PyStr ''%'')]),
      Sleep 4,
      SerialWrite ''R'', Sleep 1,
      MqttPublish ''home/room1/temperature''
        (JsonDumps [(''value'', PyFloat 23.6), (''timestamp'', PyStr ''2024-05-01T12:00:06''),
                    (''unit'', PyStr [CHR 0xB0, CHR ''C''])]),
      MqttPublish ''home/room1/status'' (Text ''offline''), MqttLoopStop, MqttDisconnect,
      SerialClose]\<rparr>)"
    by (simp add: run_loop p1 p2)
  from shutdown_teardown [of ?w "[?e1]" ?e2 "[?e3]" Publish decimal_float decimal_int] h r
  show ?thesis by simp
qed

text \<open>
  Ctrl+C outside the \<^verbatim>\<open>try\<close> of \<^verbatim>\<open>run\<close>. During the two-second wait it leaves
  \<^verbatim>\<open>run\<close> as an exception, with the port open and the client connected. A further
  Ctrl+C inside \<^verbatim>\<open>stop\<close>, here after its second call, leaves the teardown unfinished.
\<close>

lemma sigint_during_wait:
  "run decimal_float decimal_int
     \<lparr>port_ok = True, broker_ok = True, early_connacks = [0], early_sigint = True, cycles = [],
      late_sigint = None\<rparr>
     init_collector =
   Some (Some KeyboardInterrupt, \<lparr>serial_conn = Some \<lparr>is_open = True\<rparr>, running = True, trace =
     [SerialOpen ''/dev/ttyUSB0'' 9600, MqttConnect ''localhost'' 1883 60, MqttLoopStart,
      MqttPublish ''home/room1/status'' (Text ''online'')]\<rparr>)"
  by (simp add: run_loop)

lemma sigint_during_stop:
  "run decimal_float decimal_int
     \<lparr>port_ok = True, broker_ok = True, early_connacks = [], early_sigint = False, cycles =
        [\<lparr>rx = NoData, clock = ''2024-05-01T12:00:01'', connacks = [], flag_cleared = False,
          sigint = Some Request\<rparr>],
      late_sigint = Some 2\<rparr>
     init_collector =
   Some (Some KeyboardInterrupt, \<lparr>serial_conn = Some \<lparr>is_open = True\<rparr>, running = False, trace =
     [SerialOpen ''/dev/ttyUSB0'' 9600, MqttConnect ''localhost'' 1883 60, MqttLoopStart, Sleep 2,
      MqttPublish ''home/room1/status'' (Text ''offline''), MqttLoopStop]\<rparr>)"
  by (simp add: run_loop stop_sigint_def)

text \<open>
  Claim C6. When the serial port cannot be opened, \<^verbatim>\<open>run\<close> returns after the attempt
  to open it: the broker is never contacted and no poll cycle starts. When the port opens
  and the connect request to the broker fails, \<^verbatim>\<open>run\<close> returns after the two attempts,
  again without a poll cycle; the serial connection stays open.
\<close>

theorem setup_failure_aborts:
  "(\<not> port_ok w \<longrightarrow>
      (\<exists>c'. run pf pn w c = Some (None, c') \<and> serial_conn c' = serial_conn c \<and>
         trace c' = trace c @ [SerialOpen UART_PORT BAUD_RATE])) \<and>
   (port_ok w \<and> \<not> broker_ok w \<longrightarrow>
      (\<exists>c'. run pf pn w c = Some (None, c') \<and> serial_conn c' = Some \<lparr>is_open = True\<rparr> \<and>
         trace c' = trace c @ [SerialOpen UART_PORT BAUD_RATE, MqttConnect MQTT_BROKER MQTT_PORT 60]))"
  by (simp add: run_def setup_uart_def setup_mqtt_def emit_def)

theorem setup_failure_aborts_witness:
  "(\<exists>c'. run decimal_float decimal_int
            \<lparr>port_ok = False, broker_ok = True, early_connacks = [0], early_sigint = False,
             cycles = [\<lparr>rx = Line ''TEMP:23.5 HUM:60.2 STATUS:1'', clock = ''2024-05-01T12:00:01'',
               connacks = [], flag_cleared = False, sigint = None\<rparr>],
             late_sigint = None\<rparr>
            (init_collector :: real collector) = Some (None, c') \<and>
         serial_conn c' = None \<and> trace c' = [SerialOpen ''/dev/ttyUSB0'' 9600]) \<and>
   (\<exists>c'. run decimal_float decimal_int
            \<lparr>port_ok = True, broker_ok = False, early_connacks = [0], early_sigint = False,
             cycles = [\<lparr>rx = Line ''TEMP:23.5 HUM:60.2 STATUS:1'', clock = ''2024-05-01T12:00:01'',
               connacks = [], flag_cleared = False, sigint = None\<rparr>],
             late_sigint = None\<rparr>
            (init_collector :: real collector) = Some (None, c') \<and>
         serial_conn c' = Some \<lparr>is_open = True\<rparr> \<and>
         trace c' = [SerialOpen ''/dev/ttyUSB0'' 9600, MqttConnect ''localhost'' 1883 60])"
  using setup_failure_aborts [of "\<lparr>port_ok = False, broker_ok = True, early_connacks = [0],
      early_sigint = False,
      cycles = [\<lparr>rx = Line ''TEMP:23.5 HUM:60.2 STATUS:1'', clock = ''2024-05-01T12:00:01'',
        connacks = [], flag_cleared = False, sigint = None\<rparr>],
      late_sigint = None\<rparr>"
      decimal_float decimal_int "init_collector :: real collector"]
    setup_failure_aborts [of "\<lparr>port_ok = True, broker_ok = False, early_connacks = [0],
      early_sigint = False,
      cycles = [\<lparr>rx = Line ''TEMP:23.5 HUM:60.2 STATUS:1'', clock = ''2024-05-01T12:00:01'',
        connacks = [], flag_cleared = False, sigint = None\<rparr>],
      late_sigint = None\<rparr>"
      decimal_float decimal_int "init_collector :: real collector"]
  by (simp add: init_collector_def UART_PORT_def BAUD_RATE_def MQTT_BROKER_def MQTT_PORT_def)

end
